theory Spec2Isabelle
  imports Complex_Main "HOL-Library.Word" "HOL-Library.AList"
begin

section \<open>JavaScript strings\<close>

text \<open>
  A JavaScript string is a sequence of UTF-16 code units; \<open>length\<close>, \<open>substring\<close>,
  \<open>includes\<close> and \<open>trim\<close> all work on code units. The Polish texts of the service lie
  outside Latin-1, so a string is a list of 16-bit words. \<open>js\<close> embeds a Basic Latin
  literal.
\<close>

type_synonym jsstring = "16 word list"

definition js :: "string \<Rightarrow> jsstring" where
  "js s = map (\<lambda>c. of_nat (of_char c)) s"

text \<open>
  \<open>String.prototype.toLowerCase\<close>. Basic Latin capitals are mapped exactly. Outside
  Basic Latin only two code units have a lower case that contains a Basic Latin unit:
  U+0130 (to \<open>i\<close> followed by U+0307) and the Kelvin sign U+212A (to \<open>k\<close>); both are
  mapped exactly. Every other code unit is kept as it is: its lower case has no Basic
  Latin unit, and \<open>mockAnalysis\<close> reads the lower-cased text only through Basic Latin
  keywords and through \<open>\W\<close>, which separates at every unit outside Basic Latin.
\<close>

definition toLowerCaseUnit :: "16 word \<Rightarrow> jsstring" where
  "toLowerCaseUnit c =
     (if 0x41 \<le> c \<and> c \<le> 0x5A then [c + 0x20]
      else if c = 0x130 then [0x69, 0x307]
      else if c = 0x212A then [0x6B]
      else [c])"

definition toLowerCase :: "jsstring \<Rightarrow> jsstring" where
  "toLowerCase s = concat (map toLowerCaseUnit s)"

text \<open>The code units that \<open>trim\<close> strips: ECMAScript WhiteSpace and LineTerminator.\<close>

definition isWhiteSpace :: "16 word \<Rightarrow> bool" where
  "isWhiteSpace c =
     ((0x09 \<le> c \<and> c \<le> 0x0D) \<or> c = 0x20 \<or> c = 0xA0 \<or> c = 0x1680
      \<or> (0x2000 \<le> c \<and> c \<le> 0x200A) \<or> c = 0x2028 \<or> c = 0x2029 \<or> c = 0x202F
      \<or> c = 0x205F \<or> c = 0x3000 \<or> c = 0xFEFF)"

definition trim :: "jsstring \<Rightarrow> jsstring" where
  "trim s = rev (dropWhile isWhiteSpace (rev (dropWhile isWhiteSpace s)))"

text \<open>\<open>s.includes(t)\<close>: \<open>t\<close> occurs in \<open>s\<close> as a contiguous run.\<close>

fun includes_str :: "jsstring \<Rightarrow> jsstring \<Rightarrow> bool" where
  "includes_str [] t = (t = [])"
| "includes_str (c # cs) t = (take (length t) (c # cs) = t \<or> includes_str cs t)"

text \<open>\<open>s.substring(0, n)\<close> is \<open>take n s\<close>.\<close>

text \<open>
  \<open>s.split(/\W+/)\<close>: the pieces between the maximal runs of units outside
  \<open>[A-Za-z0-9_]\<close>. A run at the start or at the end leaves an empty piece there, and the
  empty string splits into one empty piece. The flag says that the scan is inside a run.
\<close>

definition isWordChar :: "16 word \<Rightarrow> bool" where
  "isWordChar c =
     ((0x30 \<le> c \<and> c \<le> 0x39) \<or> (0x41 \<le> c \<and> c \<le> 0x5A) \<or> c = 0x5F
      \<or> (0x61 \<le> c \<and> c \<le> 0x7A))"

fun splitScan :: "jsstring \<Rightarrow> jsstring \<Rightarrow> bool \<Rightarrow> jsstring list" where
  "splitScan [] cur inRun = [rev cur]"
| "splitScan (c # cs) cur inRun =
     (if isWordChar c then splitScan cs (c # cur) False
      else if inRun then splitScan cs cur True
      else rev cur # splitScan cs [] True)"

definition splitNonWord :: "jsstring \<Rightarrow> jsstring list" where
  "splitNonWord s = splitScan s [] False"

section \<open>The tone analysis model (models/toneAnalysis.js)\<close>

text \<open>The enumerations are objects of string constants.\<close>

definition Sentiment_VERY_NEGATIVE :: jsstring where "Sentiment_VERY_NEGATIVE = js ''VERY_NEGATIVE''"
definition Sentiment_NEGATIVE :: jsstring where "Sentiment_NEGATIVE = js ''NEGATIVE''"
definition Sentiment_NEUTRAL :: jsstring where "Sentiment_NEUTRAL = js ''NEUTRAL''"
definition Sentiment_POSITIVE :: jsstring where "Sentiment_POSITIVE = js ''POSITIVE''"
definition Sentiment_VERY_POSITIVE :: jsstring where "Sentiment_VERY_POSITIVE = js ''VERY_POSITIVE''"

definition Emotion_ANGER :: jsstring where "Emotion_ANGER = js ''ANGER''"
definition Emotion_FEAR :: jsstring where "Emotion_FEAR = js ''FEAR''"
definition Emotion_HAPPINESS :: jsstring where "Emotion_HAPPINESS = js ''HAPPINESS''"
definition Emotion_SADNESS :: jsstring where "Emotion_SADNESS = js ''SADNESS''"
definition Emotion_SURPRISE :: jsstring where "Emotion_SURPRISE = js ''SURPRISE''"
definition Emotion_DISGUST :: jsstring where "Emotion_DISGUST = js ''DISGUST''"
definition Emotion_NEUTRAL :: jsstring where "Emotion_NEUTRAL = js ''NEUTRAL''"

definition Urgency_LOW :: jsstring where "Urgency_LOW = js ''LOW''"
definition Urgency_NORMAL :: jsstring where "Urgency_NORMAL = js ''NORMAL''"
definition Urgency_HIGH :: jsstring where "Urgency_HIGH = js ''HIGH''"
definition Urgency_CRITICAL :: jsstring where "Urgency_CRITICAL = js ''CRITICAL''"

definition Formality_VERY_INFORMAL :: jsstring where "Formality_VERY_INFORMAL = js ''VERY_INFORMAL''"
definition Formality_INFORMAL :: jsstring where "Formality_INFORMAL = js ''INFORMAL''"
definition Formality_NEUTRAL :: jsstring where "Formality_NEUTRAL = js ''NEUTRAL''"
definition Formality_FORMAL :: jsstring where "Formality_FORMAL = js ''FORMAL''"
definition Formality_VERY_FORMAL :: jsstring where "Formality_VERY_FORMAL = js ''VERY_FORMAL''"

definition Sentiment :: "jsstring list" where
  "Sentiment = [Sentiment_VERY_NEGATIVE, Sentiment_NEGATIVE, Sentiment_NEUTRAL,
                Sentiment_POSITIVE, Sentiment_VERY_POSITIVE]"

definition Urgency :: "jsstring list" where
  "Urgency = [Urgency_LOW, Urgency_NORMAL, Urgency_HIGH, Urgency_CRITICAL]"

definition Formality :: "jsstring list" where
  "Formality = [Formality_VERY_INFORMAL, Formality_INFORMAL, Formality_NEUTRAL,
                Formality_FORMAL, Formality_VERY_FORMAL]"

text \<open>
  \<open>emotions\<close> is an object from emotion tags to numbers: an association list in
  property creation order. The weights are decimal literals, kept as rationals.
\<close>

record ToneAnalysis =
  sentiment :: jsstring
  emotions :: "(jsstring \<times> rat) list"
  urgency :: jsstring
  formality :: jsstring
  topTopics :: "jsstring list"
  summaryText :: jsstring

text \<open>\<open>ToneAnalysis.createDefault\<close>; the summary is "Nie mo\.zna przeanalizowa\'c tre\'sci wiadomo\'sci."\<close>

definition createDefault :: ToneAnalysis where
  "createDefault =
     \<lparr> sentiment = Sentiment_NEUTRAL,
       emotions = [(Emotion_NEUTRAL, 1)],
       urgency = Urgency_NORMAL,
       formality = Formality_NEUTRAL,
       topTopics = [],
       summaryText = js ''Nie mo'' @ [0x17C] @ js ''na przeanalizowa'' @ [0x107] @ js '' tre''
                     @ [0x15B] @ js ''ci wiadomo'' @ [0x15B] @ js ''ci.'' \<rparr>"

section \<open>The classifier (services/llmService.js)\<close>

text \<open>
  \<open>wordCounts\<close> is an object literal used as a counter: its own properties, in creation
  order, with the value of each. A value is a number, except where the word names a
  property that the empty object inherits. Of those only two are lower-case words:
  \<open>constructor\<close> reads as the function \<open>Object\<close>, so that \<open>(wordCounts[word] || 0) + 1\<close>
  is a string, stored as an own property; \<open>__proto__\<close> reads as an object and the
  assignment of the resulting string to it is ignored.
\<close>

datatype jsval = Num nat | Str jsstring

definition countWord :: "(jsstring \<times> jsval) list \<Rightarrow> jsstring \<Rightarrow> (jsstring \<times> jsval) list" where
  "countWord wordCounts word =
     (case map_of wordCounts word of
        Some (Num n) \<Rightarrow> AList.update word (Num (n + 1)) wordCounts
      | Some (Str s) \<Rightarrow>
          AList.update word (if s = [] then Num 1 else Str (s @ js ''1'')) wordCounts
      | None \<Rightarrow>
          if word = js ''__proto__'' then wordCounts
          else if word = js ''constructor''
          then wordCounts @ [(word, Str (js ''function Object() { [native code] }1''))]
          else wordCounts @ [(word, Num 1)])"

text \<open>
  \<open>Object.entries\<close> lists the array-index keys first, in ascending numeric order, then
  the other keys in creation order. An array index is the canonical decimal form of an
  integer below \<open>2^32 - 1\<close>.
\<close>

definition isDigit :: "16 word \<Rightarrow> bool" where
  "isDigit c = (0x30 \<le> c \<and> c \<le> 0x39)"

definition decimalValue :: "jsstring \<Rightarrow> int" where
  "decimalValue w = foldl (\<lambda>a d. 10 * a + uint (d - 0x30)) 0 w"

definition isArrayIndex :: "jsstring \<Rightarrow> bool" where
  "isArrayIndex w =
     (w \<noteq> [] \<and> list_all isDigit w \<and> (w = js ''0'' \<or> hd w \<noteq> 0x30)
      \<and> decimalValue w < 4294967295)"

definition entries :: "(jsstring \<times> jsval) list \<Rightarrow> (jsstring \<times> jsval) list" where
  "entries obj =
     sort_key (\<lambda>e. decimalValue (fst e)) (filter (\<lambda>e. isArrayIndex (fst e)) obj)
     @ filter (\<lambda>e. \<not> isArrayIndex (fst e)) obj"

text \<open>
  The comparator \<open>(a, b) => b[1] - a[1]\<close>: the difference of two numbers, and \<open>NaN\<close>,
  which \<open>sort\<close> reads as 0, as soon as one value is the string of the \<open>constructor\<close>
  entry.
\<close>

fun compareCount :: "jsval \<Rightarrow> jsval \<Rightarrow> int" where
  "compareCount (Num a) (Num b) = int b - int a"
| "compareCount _ _ = 0"

text \<open>
  \<open>Array.prototype.sort\<close> as V8 runs it (Node 18, which the Dockerfile installs). Below
  64 elements its TimSort is a single pass: the run at the start of the array is
  measured and, when it is strictly descending, reversed; each later element is then
  put into the sorted front by binary insertion, \<open>searchLeft\<close> being the binary search
  for its place. With numbers for all counts the comparator is consistent and the
  result is the stable sort by descending count, whatever the length. With the string
  of the \<open>constructor\<close> entry the comparator is not consistent, ECMAScript leaves the
  order to the engine, and the order is the one this pass leaves. (From 64 entries on
  the engine merges several runs; the model keeps to the single pass, which differs
  from the engine only when the comparator is inconsistent as well.)
\<close>

function searchLeft ::
  "(jsstring \<times> jsval) \<Rightarrow> (jsstring \<times> jsval) list \<Rightarrow> nat \<Rightarrow> nat \<Rightarrow> nat" where
  "searchLeft pivot workArray left right =
     (if left < right then
        (if compareCount (snd pivot) (snd (workArray ! (left + (right - left) div 2))) < 0
         then searchLeft pivot workArray left (left + (right - left) div 2)
         else searchLeft pivot workArray (left + (right - left) div 2 + 1) right)
      else left)"
  by pat_completeness auto
termination
  by (relation "measure (\<lambda>(pivot, workArray, left, right). right - left)") auto

definition binaryInsert ::
  "(jsstring \<times> jsval) list \<Rightarrow> (jsstring \<times> jsval) \<Rightarrow> (jsstring \<times> jsval) list" where
  "binaryInsert sortedFront pivot =
     (let left = searchLeft pivot sortedFront 0 (length sortedFront)
      in take left sortedFront @ pivot # drop left sortedFront)"

fun runTail :: "bool \<Rightarrow> (jsstring \<times> jsval) \<Rightarrow> (jsstring \<times> jsval) list \<Rightarrow> nat" where
  "runTail isDescending previousElement [] = 0"
| "runTail isDescending previousElement (currentElement # rest) =
     (if (if isDescending
          then 0 \<le> compareCount (snd currentElement) (snd previousElement)
          else compareCount (snd currentElement) (snd previousElement) < 0)
      then 0
      else 1 + runTail isDescending currentElement rest)"

definition sortEntries :: "(jsstring \<times> jsval) list \<Rightarrow> (jsstring \<times> jsval) list" where
  "sortEntries workArray =
     (case workArray of
        elementHigh # elementLow # rest \<Rightarrow>
          let isDescending = compareCount (snd elementLow) (snd elementHigh) < 0;
              runLength = 2 + runTail isDescending elementLow rest;
              run = take runLength workArray
          in foldl binaryInsert (if isDescending then rev run else run)
               (drop runLength workArray)
      | _ \<Rightarrow> workArray)"

definition stopWords :: "jsstring list" where
  "stopWords = [js ''from'', js ''this'', js ''that'', js ''with'', js ''have'', js ''your'']"

definition extractTopics :: "jsstring \<Rightarrow> jsstring list" where
  "extractTopics lowerContent =
     (let words = filter (\<lambda>w. length w > 3 \<and> w \<notin> set stopWords) (splitNonWord lowerContent);
          wordCounts = foldl countWord [] words
      in map fst (take 4 (sortEntries (entries wordCounts))))"

definition detectSentiment :: "jsstring \<Rightarrow> jsstring \<times> (jsstring \<times> rat) list" where
  "detectSentiment lowerContent =
     (let sentiment = Sentiment_NEUTRAL; emotions = [(Emotion_NEUTRAL, 8 / 10)] in
      if includes_str lowerContent (js ''problem'') \<or> includes_str lowerContent (js ''error'')
         \<or> includes_str lowerContent (js ''issue'')
      then (Sentiment_NEGATIVE,
            AList.update Emotion_NEUTRAL (3 / 10) (AList.update Emotion_SADNESS (5 / 10) emotions))
      else if includes_str lowerContent (js ''angry'') \<or> includes_str lowerContent (js ''frustrated'')
         \<or> includes_str lowerContent (js ''terrible'')
      then (Sentiment_VERY_NEGATIVE,
            AList.update Emotion_SADNESS (2 / 10) (AList.update Emotion_ANGER (7 / 10) emotions))
      else if includes_str lowerContent (js ''thanks'') \<or> includes_str lowerContent (js ''good'')
         \<or> includes_str lowerContent (js ''happy'')
      then (Sentiment_POSITIVE,
            AList.update Emotion_NEUTRAL (4 / 10) (AList.update Emotion_HAPPINESS (6 / 10) emotions))
      else if includes_str lowerContent (js ''excellent'') \<or> includes_str lowerContent (js ''amazing'')
         \<or> includes_str lowerContent (js ''great'')
      then (Sentiment_VERY_POSITIVE,
            AList.update Emotion_SURPRISE (2 / 10) (AList.update Emotion_HAPPINESS (8 / 10) emotions))
      else (sentiment, emotions))"

definition detectUrgency :: "jsstring \<Rightarrow> jsstring" where
  "detectUrgency lowerContent =
     (if includes_str lowerContent (js ''urgent'') \<or> includes_str lowerContent (js ''asap'')
         \<or> includes_str lowerContent (js ''immediately'')
      then Urgency_HIGH
      else if includes_str lowerContent (js ''critical'') \<or> includes_str lowerContent (js ''emergency'')
      then Urgency_CRITICAL
      else if includes_str lowerContent (js ''when you have time'')
         \<or> includes_str lowerContent (js ''no rush'')
      then Urgency_LOW
      else Urgency_NORMAL)"

definition detectFormality :: "jsstring \<Rightarrow> jsstring" where
  "detectFormality lowerContent =
     (if includes_str lowerContent (js ''dear sir'') \<or> includes_str lowerContent (js ''yours sincerely'')
         \<or> includes_str lowerContent (js ''to whom it may concern'')
      then Formality_FORMAL
      else if includes_str lowerContent (js ''hey'') \<or> includes_str lowerContent (js ''btw'')
         \<or> includes_str lowerContent (js ''lol'')
      then Formality_INFORMAL
      else Formality_NEUTRAL)"

text \<open>
  \<open>mockAnalysis\<close>: the three keyword cascades, the topic extractor and the summary, in
  the order of the source. The cascades are named here; each is the source's
  \<open>if / else if\<close> chain with its initial value as the last branch.
\<close>

definition mockAnalysis :: "jsstring \<Rightarrow> ToneAnalysis" where
  "mockAnalysis content =
     (let lowerContent = toLowerCase content;
          (sentiment, emotions) = detectSentiment lowerContent;
          urgency = detectUrgency lowerContent;
          formality = detectFormality lowerContent;
          topTopics = extractTopics lowerContent;
          summaryText = (if length content > 100 then take 100 content @ js ''...'' else content)
      in \<lparr> sentiment = sentiment, emotions = emotions, urgency = urgency,
           formality = formality, topTopics = topTopics, summaryText = summaryText \<rparr>)"

text \<open>
  \<open>analyzeTone\<close>. \<open>!content\<close> holds of the empty string. Nothing in \<open>mockAnalysis\<close>
  throws, so the \<open>catch\<close> branch, which would return the default analysis too, is
  never taken.
\<close>

definition analyzeTone :: "jsstring \<Rightarrow> ToneAnalysis" where
  "analyzeTone content =
     (if content = [] \<or> trim content = [] then createDefault else mockAnalysis content)"

section \<open>The message model (models/emailMessage.js)\<close>

definition EmailStatus_RECEIVED :: jsstring where "EmailStatus_RECEIVED = js ''RECEIVED''"
definition EmailStatus_PROCESSING :: jsstring where "EmailStatus_PROCESSING = js ''PROCESSING''"
definition EmailStatus_PROCESSED :: jsstring where "EmailStatus_PROCESSED = js ''PROCESSED''"
definition EmailStatus_REPLIED :: jsstring where "EmailStatus_REPLIED = js ''REPLIED''"
definition EmailStatus_ERROR :: jsstring where "EmailStatus_ERROR = js ''ERROR''"

text \<open>
  \<open>EmailMessage\<close>. \<open>None\<close> is \<open>null\<close>; dates are instants on a clock. The fields
  \<open>id\<close>, \<open>from\<close> and \<open>to\<close> are \<open>id_num\<close>, \<open>from_addr\<close> and \<open>to_addr\<close>. A row of
  the table \<open>emails\<close> is kept as the message that \<open>fromDb\<close> reads from it; the column
  \<open>tone_analysis\<close> holds the JSON text of the analysis, kept here as the analysis.
\<close>

record EmailMessage =
  id_num :: "nat option"
  from_addr :: jsstring
  to_addr :: jsstring
  subject :: "jsstring option"
  content :: "jsstring option"
  receivedDate :: nat
  processedDate :: "nat option"
  toneAnalysis :: "ToneAnalysis option"
  status :: jsstring

text \<open>
  A Camel exchange: the message body and its headers. The body is an \<open>EmailMessage\<close>, a
  raw text, or absent (\<open>null\<close> or \<open>undefined\<close>).
\<close>

datatype Body = EmailBody EmailMessage | TextBody jsstring | NoBody

record Headers =
  header_from :: jsstring
  header_to :: jsstring
  header_subject :: "jsstring option"

record Exchange =
  body :: Body
  headers :: Headers

section \<open>The store (utils/dbUtils.js) and the outside world\<close>

text \<open>
  The table \<open>emails\<close> in insertion order, the clock read by \<open>new Date()\<close>, the mails
  handed to SMTP, and a schedule of faults: every statement run against the database
  takes the next flag, and throws if it is set. An empty schedule means no fault.
\<close>

record Mail =
  mail_to :: jsstring
  mail_subject :: jsstring
  mail_body :: Body

record World =
  emails :: "EmailMessage list"
  faults :: "bool list"
  clock :: nat
  outbox :: "Mail list"

datatype error = TypeError | SqliteError | ClassificationError | TemplateNotFound

definition dbFails :: "World \<Rightarrow> bool" where
  "dbFails w = (case faults w of [] \<Rightarrow> False | f # _ \<Rightarrow> f)"

definition nextStatement :: "World \<Rightarrow> World" where
  "nextStatement w = w\<lparr> faults := tl (faults w) \<rparr>"

text \<open>
  A value bound to the \<open>id\<close> parameter of a statement: a number, or \<open>NULL\<close>, which
  equals no row id. \<open>null\<close> is bound as \<open>NULL\<close>, and so is \<open>undefined\<close>, the \<open>id\<close> of a
  body that is a raw text.
\<close>

datatype IdParam = Null | RowId nat

definition idParam :: "EmailMessage \<Rightarrow> IdParam" where
  "idParam email = (case id_num email of None \<Rightarrow> Null | Some n \<Rightarrow> RowId n)"

definition matchesId :: "IdParam \<Rightarrow> EmailMessage \<Rightarrow> bool" where
  "matchesId p row = (case p of RowId n \<Rightarrow> id_num row = Some n | Null \<Rightarrow> False)"

text \<open>\<open>x || ''\<close> for a string that may be \<open>null\<close>.\<close>

definition orEmpty :: "jsstring option \<Rightarrow> jsstring" where
  "orEmpty x = (case x of None \<Rightarrow> [] | Some s \<Rightarrow> s)"

section \<open>The email service, function version (services/emailService.js)\<close>

text \<open>
  Every operation returns its outcome and the world it leaves: a throw is \<open>Inl\<close>, and
  the statements run before it stay done. Nothing deletes a row, so the row id that an
  \<open>INSERT\<close> returns is the number of rows after it.
\<close>

definition saveEmailToDatabase :: "EmailMessage \<Rightarrow> World \<Rightarrow> (error + nat) \<times> World" where
  "saveEmailToDatabase email w =
     (if dbFails w then (Inl SqliteError, nextStatement w)
      else
        let lastInsertRowid = length (emails w) + 1;
            row = \<lparr> id_num = Some lastInsertRowid, from_addr = from_addr email,
                    to_addr = to_addr email, subject = Some (orEmpty (subject email)),
                    content = Some (orEmpty (content email)),
                    receivedDate = receivedDate email, processedDate = None,
                    toneAnalysis = None, status = status email \<rparr>
        in (Inr lastInsertRowid, nextStatement (w\<lparr> emails := emails w @ [row] \<rparr>)))"

definition updateEmailStatus :: "IdParam \<Rightarrow> jsstring \<Rightarrow> World \<Rightarrow> (error + unit) \<times> World" where
  "updateEmailStatus p newStatus w =
     (if dbFails w then (Inl SqliteError, nextStatement w)
      else (Inr (), nextStatement
              (w\<lparr> emails := map (\<lambda>row. if matchesId p row then row\<lparr> status := newStatus \<rparr> else row)
                                (emails w) \<rparr>)))"

definition saveAnalysisResults :: "EmailMessage \<Rightarrow> World \<Rightarrow> (error + unit) \<times> World" where
  "saveAnalysisResults email w =
     (if dbFails w then (Inl SqliteError, nextStatement w)
      else case processedDate email of
        None \<Rightarrow> (Inl TypeError, nextStatement w)
      | Some d \<Rightarrow>
          (Inr (), nextStatement
             (w\<lparr> emails := map (\<lambda>row. if matchesId (idParam email) row
                                       then row\<lparr> toneAnalysis := toneAnalysis email,
                                                processedDate := Some d,
                                                status := status email \<rparr>
                                       else row)
                               (emails w) \<rparr>)))"

text \<open>
  \<open>extractEmailFromExchange\<close>: a body that is not an \<open>EmailMessage\<close> becomes the content
  of a new message, built by the constructor (status \<open>RECEIVED\<close>, received now) and
  stored at once.
\<close>

definition extractEmailFromExchange :: "Exchange \<Rightarrow> World \<Rightarrow> (error + EmailMessage) \<times> World" where
  "extractEmailFromExchange exchange w =
     (case body exchange of
        EmailBody email \<Rightarrow> (Inr email, w)
      | other \<Rightarrow>
          let content' = (case other of TextBody s \<Rightarrow> s | _ \<Rightarrow> []);
              email = \<lparr> id_num = None, from_addr = header_from (headers exchange),
                        to_addr = header_to (headers exchange),
                        subject = Some (orEmpty (header_subject (headers exchange))),
                        content = Some content', receivedDate = clock w,
                        processedDate = None, toneAnalysis = None,
                        status = EmailStatus_RECEIVED \<rparr>
          in case saveEmailToDatabase email w of
               (Inl e, w') \<Rightarrow> (Inl e, w')
             | (Inr rowid, w') \<Rightarrow> (Inr (email\<lparr> id_num := Some rowid \<rparr>), w'))"

text \<open>\<open>processEmail\<close>: the \<open>catch\<close> logs and throws the error again.\<close>

definition processEmail :: "Exchange \<Rightarrow> World \<Rightarrow> (error + Exchange) \<times> World" where
  "processEmail exchange w =
     (case extractEmailFromExchange exchange w of
        (Inl e, w1) \<Rightarrow> (Inl e, w1)
      | (Inr email, w1) \<Rightarrow>
          (case updateEmailStatus (idParam email) EmailStatus_PROCESSING w1 of
             (Inl e, w2) \<Rightarrow> (Inl e, w2)
           | (Inr _, w2) \<Rightarrow>
               let content' = orEmpty (content email);
                   toneAnalysis' = analyzeTone content';
                   processedEmail = email\<lparr> toneAnalysis := Some toneAnalysis',
                                           processedDate := Some (clock w2),
                                           status := EmailStatus_PROCESSED \<rparr>
               in case saveAnalysisResults processedEmail w2 of
                    (Inl e, w3) \<Rightarrow> (Inl e, w3)
                  | (Inr _, w3) \<Rightarrow> (Inr (exchange\<lparr> body := EmailBody processedEmail \<rparr>), w3)))"

text \<open>
  \<open>shouldAutoReply\<close>. Reading \<open>toneAnalysis\<close> off an absent body throws and the
  \<open>catch\<close> returns false; off a raw text it is \<open>undefined\<close>.
\<close>

definition shouldAutoReply :: "Exchange \<Rightarrow> bool" where
  "shouldAutoReply exchange =
     (case body exchange of
        EmailBody email \<Rightarrow>
          (case toneAnalysis email of
             None \<Rightarrow> False
           | Some analysis \<Rightarrow>
               urgency analysis = Urgency_HIGH \<or> urgency analysis = Urgency_CRITICAL
               \<or> sentiment analysis = Sentiment_NEGATIVE
               \<or> sentiment analysis = Sentiment_VERY_NEGATIVE)
      | TextBody _ \<Rightarrow> False
      | NoBody \<Rightarrow> False)"

subsection \<open>The reply templates\<close>

definition DEFAULT_REPLY :: jsstring where
  "DEFAULT_REPLY =
     [0x0A] @ js ''Witaj,'' @ [0x0A, 0x0A] @ js ''Dzi'' @ [0x119] @ js ''kujemy za wiadomo''
     @ [0x15B, 0x107] @ js ''. To jest automatyczna odpowied'' @ [0x17A] @ js ''.''
     @ [0x0A, 0x0A] @ js ''Otrzymali'' @ [0x15B] @ js ''my Twoj'' @ [0x105] @ js '' wiadomo''
     @ [0x15B, 0x107] @ js '' o temacie: '' @ [0x22] @ js ''{subject}'' @ [0x22, 0x0A, 0x0A]
     @ js ''Zajmiemy si'' @ [0x119] @ js '' ni'' @ [0x105] @ js '' tak szybko, jak to mo''
     @ [0x17C] @ js ''liwe.'' @ [0x0A, 0x0A] @ js ''Pozdrawiamy,'' @ [0x0A]
     @ js ''System Email LLM Processor'' @ [0x0A]"

definition URGENT_REPLY :: jsstring where
  "URGENT_REPLY =
     [0x0A] @ js ''Witaj,'' @ [0x0A, 0x0A] @ js ''Dzi'' @ [0x119] @ js ''kujemy za wiadomo''
     @ [0x15B, 0x107] @ js ''. To jest automatyczna odpowied'' @ [0x17A] @ js ''.''
     @ [0x0A, 0x0A] @ js ''Otrzymali'' @ [0x15B] @ js ''my Twoj'' @ [0x105] @ js '' piln''
     @ [0x105] @ js '' wiadomo'' @ [0x15B, 0x107] @ js '' o temacie: '' @ [0x22]
     @ js ''{subject}'' @ [0x22, 0x0A, 0x0A] @ js ''Zauwa'' @ [0x17C] @ js ''yli'' @ [0x15B]
     @ js ''my, '' @ [0x17C] @ js ''e sprawa jest krytycznie wa'' @ [0x17C]
     @ js ''na. Zajmiemy si'' @ [0x119] @ js '' ni'' @ [0x105] @ js '' priorytetowo.''
     @ [0x0A, 0x0A] @ js ''Pozdrawiamy,'' @ [0x0A] @ js ''System Email LLM Processor'' @ [0x0A]"

definition HIGH_PRIORITY_REPLY :: jsstring where
  "HIGH_PRIORITY_REPLY =
     [0x0A] @ js ''Witaj,'' @ [0x0A, 0x0A] @ js ''Dzi'' @ [0x119] @ js ''kujemy za wiadomo''
     @ [0x15B, 0x107] @ js ''. To jest automatyczna odpowied'' @ [0x17A] @ js ''.''
     @ [0x0A, 0x0A] @ js ''Otrzymali'' @ [0x15B] @ js ''my Twoj'' @ [0x105] @ js '' wa''
     @ [0x17C] @ js ''n'' @ [0x105] @ js '' wiadomo'' @ [0x15B, 0x107] @ js '' o temacie: ''
     @ [0x22] @ js ''{subject}'' @ [0x22, 0x0A, 0x0A] @ js ''Zauwa'' @ [0x17C] @ js ''yli''
     @ [0x15B] @ js ''my, '' @ [0x17C] @ js ''e sprawa jest pilna. Zajmiemy si'' @ [0x119]
     @ js '' ni'' @ [0x105] @ js '' tak szybko, jak to mo'' @ [0x17C] @ js ''liwe.''
     @ [0x0A, 0x0A] @ js ''Pozdrawiamy,'' @ [0x0A] @ js ''System Email LLM Processor'' @ [0x0A]"

definition NEGATIVE_REPLY :: jsstring where
  "NEGATIVE_REPLY =
     [0x0A] @ js ''Witaj,'' @ [0x0A, 0x0A] @ js ''Dzi'' @ [0x119] @ js ''kujemy za wiadomo''
     @ [0x15B, 0x107] @ js ''. To jest automatyczna odpowied'' @ [0x17A] @ js ''.''
     @ [0x0A, 0x0A] @ js ''Otrzymali'' @ [0x15B] @ js ''my Twoj'' @ [0x105] @ js '' wiadomo''
     @ [0x15B, 0x107] @ js '' o temacie: '' @ [0x22] @ js ''{subject}'' @ [0x22, 0x0A, 0x0A]
     @ js ''Przepraszamy za wszelkie niedogodno'' @ [0x15B] @ js ''ci. Postaramy si'' @ [0x119]
     @ js '' rozwi'' @ [0x105] @ js ''za'' @ [0x107] @ js '' problem jak najszybciej.''
     @ [0x0A, 0x0A] @ js ''Pozdrawiamy,'' @ [0x0A] @ js ''System Email LLM Processor'' @ [0x0A]"

definition VERY_NEGATIVE_REPLY :: jsstring where
  "VERY_NEGATIVE_REPLY =
     [0x0A] @ js ''Witaj,'' @ [0x0A, 0x0A] @ js ''Dzi'' @ [0x119] @ js ''kujemy za wiadomo''
     @ [0x15B, 0x107] @ js ''. To jest automatyczna odpowied'' @ [0x17A] @ js ''.''
     @ [0x0A, 0x0A] @ js ''Otrzymali'' @ [0x15B] @ js ''my Twoj'' @ [0x105] @ js '' wiadomo''
     @ [0x15B, 0x107] @ js '' o temacie: '' @ [0x22] @ js ''{subject}'' @ [0x22, 0x0A, 0x0A]
     @ js ''Bardzo nam przykro, '' @ [0x17C] @ js ''e pojawi'' @ [0x142] @ js '' si'' @ [0x119]
     @ js '' problem. Z najwy'' @ [0x17C] @ js ''szym priorytetem zajmiemy si'' @ [0x119]
     @ js '' Twoj'' @ [0x105] @ js '' spraw'' @ [0x105] @ js ''.'' @ [0x0A, 0x0A]
     @ js ''Pozdrawiamy,'' @ [0x0A] @ js ''System Email LLM Processor'' @ [0x0A]"

definition POSITIVE_REPLY :: jsstring where
  "POSITIVE_REPLY =
     [0x0A] @ js ''Witaj,'' @ [0x0A, 0x0A] @ js ''Dzi'' @ [0x119] @ js ''kujemy za wiadomo''
     @ [0x15B, 0x107] @ js ''. To jest automatyczna odpowied'' @ [0x17A] @ js ''.''
     @ [0x0A, 0x0A] @ js ''Otrzymali'' @ [0x15B] @ js ''my Twoj'' @ [0x105] @ js '' wiadomo''
     @ [0x15B, 0x107] @ js '' o temacie: '' @ [0x22] @ js ''{subject}'' @ [0x22, 0x0A, 0x0A]
     @ js ''Dzi'' @ [0x119] @ js ''kujemy za pozytywne informacje. Odpowiemy na Twoj'' @ [0x105]
     @ js '' wiadomo'' @ [0x15B, 0x107] @ js '' wkr'' @ [0xF3] @ js ''tce.'' @ [0x0A, 0x0A]
     @ js ''Pozdrawiamy,'' @ [0x0A] @ js ''System Email LLM Processor'' @ [0x0A]"


subsection \<open>Personalising and sending the reply\<close>

text \<open>
  \<open>s.replace(pattern, replacement)\<close> with a string pattern replaces the first
  occurrence only, and reads the replacement as a template: \<open>$$\<close> is a dollar sign,
  \<open>$&\<close> the matched text, \<open>$`\<close> the text before the match and \<open>$'\<close> the text after
  it; a string pattern has no groups, so any other \<open>$\<close> stands for itself.
\<close>

fun indexOf :: "jsstring \<Rightarrow> jsstring \<Rightarrow> nat option" where
  "indexOf [] t = (if t = [] then Some 0 else None)"
| "indexOf (c # cs) t =
     (if take (length t) (c # cs) = t then Some 0 else map_option Suc (indexOf cs t))"

fun expandReplacement :: "jsstring \<Rightarrow> jsstring \<Rightarrow> jsstring \<Rightarrow> jsstring \<Rightarrow> jsstring" where
  "expandReplacement matched preceding following (c # d # r) =
     (if c = 0x24 then
        (if d = 0x24 then 0x24 # expandReplacement matched preceding following r
         else if d = 0x26 then matched @ expandReplacement matched preceding following r
         else if d = 0x60 then preceding @ expandReplacement matched preceding following r
         else if d = 0x27 then following @ expandReplacement matched preceding following r
         else c # expandReplacement matched preceding following (d # r))
      else c # expandReplacement matched preceding following (d # r))"
| "expandReplacement matched preceding following r = r"

definition replace_str :: "jsstring \<Rightarrow> jsstring \<Rightarrow> jsstring \<Rightarrow> jsstring" where
  "replace_str s pattern replacement =
     (case indexOf s pattern of
        None \<Rightarrow> s
      | Some i \<Rightarrow>
          let preceding = take i s; following = drop (i + length pattern) s
          in preceding @ expandReplacement pattern preceding following replacement @ following)"

text \<open>The \<open>switch\<close> of \<open>generateReply\<close> that picks the template.\<close>

definition replyTemplate :: "ToneAnalysis option \<Rightarrow> jsstring" where
  "replyTemplate analysis =
     (case analysis of
        None \<Rightarrow> DEFAULT_REPLY
      | Some a \<Rightarrow>
          if urgency a = Urgency_CRITICAL then URGENT_REPLY
          else if urgency a = Urgency_HIGH then HIGH_PRIORITY_REPLY
          else if sentiment a = Sentiment_VERY_NEGATIVE then VERY_NEGATIVE_REPLY
          else if sentiment a = Sentiment_NEGATIVE then NEGATIVE_REPLY
          else if sentiment a = Sentiment_POSITIVE \<or> sentiment a = Sentiment_VERY_POSITIVE
          then POSITIVE_REPLY
          else DEFAULT_REPLY)"

definition personalise :: "jsstring \<Rightarrow> EmailMessage \<Rightarrow> jsstring" where
  "personalise replyText email =
     replace_str
       (replace_str
          (replace_str replyText (js ''{subject}'') (orEmpty (subject email)))
          (js ''{summary}'')
          (case toneAnalysis email of None \<Rightarrow> [] | Some analysis \<Rightarrow> summaryText analysis))
       (js ''{from}'') (from_addr email)"

text \<open>
  \<open>generateReply\<close>. Any throw ends in the \<open>catch\<close>, which puts the bare default
  template in the body: an absent body throws at once, and a failed status update
  throws after the reply text was set. A raw text has no analysis, \<open>subject\<close>, \<open>from\<close>
  or \<open>id\<close>: the default template is filled in with the empty string and the text
  \<open>undefined\<close>, and the update matches no row.
\<close>

definition generateReply :: "Exchange \<Rightarrow> World \<Rightarrow> Exchange \<times> World" where
  "generateReply exchange w =
     (case body exchange of
        NoBody \<Rightarrow> (exchange\<lparr> body := TextBody DEFAULT_REPLY \<rparr>, w)
      | TextBody _ \<Rightarrow>
          let replyText =
                replace_str
                  (replace_str (replace_str DEFAULT_REPLY (js ''{subject}'') [])
                     (js ''{summary}'') [])
                  (js ''{from}'') (js ''undefined'')
          in case updateEmailStatus Null EmailStatus_REPLIED w of
               (Inl e, w') \<Rightarrow> (exchange\<lparr> body := TextBody DEFAULT_REPLY \<rparr>, w')
             | (Inr _, w') \<Rightarrow> (exchange\<lparr> body := TextBody replyText \<rparr>, w')
      | EmailBody email \<Rightarrow>
          let replyText = personalise (replyTemplate (toneAnalysis email)) email
          in case updateEmailStatus (idParam email) EmailStatus_REPLIED w of
               (Inl e, w') \<Rightarrow> (exchange\<lparr> body := TextBody DEFAULT_REPLY \<rparr>, w')
             | (Inr _, w') \<Rightarrow> (exchange\<lparr> body := TextBody replyText \<rparr>, w'))"

section \<open>The email service, class version (class \<open>EmailService\<close>)\<close>

text \<open>
  The class shares \<open>extractEmailFromExchange\<close>, \<open>saveEmailToDatabase\<close> and
  \<open>shouldAutoReply\<close> with the function version, line for line. Its \<open>updateEmailStatus\<close>
  and \<open>saveAnalysisResults\<close> log a failure and return. \<open>archiveEmail\<close> writes a file
  beside the store, in the background, and keeps its own failures; it is left out.
\<close>

definition EmailService_updateEmailStatus :: "IdParam \<Rightarrow> jsstring \<Rightarrow> World \<Rightarrow> World" where
  "EmailService_updateEmailStatus p newStatus w = snd (updateEmailStatus p newStatus w)"

definition EmailService_saveAnalysisResults :: "EmailMessage \<Rightarrow> World \<Rightarrow> World" where
  "EmailService_saveAnalysisResults email w = snd (saveAnalysisResults email w)"

text \<open>
  The \<open>catch\<close> of \<open>processEmail\<close>: the status \<open>ERROR\<close> is written when the body of the
  exchange is truthy and has a truthy \<open>id\<close>.
\<close>

definition EmailService_processEmail_catch :: "Exchange \<Rightarrow> World \<Rightarrow> World" where
  "EmailService_processEmail_catch exchange w =
     (case body exchange of
        EmailBody email \<Rightarrow>
          (case id_num email of
             Some n \<Rightarrow>
               if n = 0 then w else EmailService_updateEmailStatus (RowId n) EmailStatus_ERROR w
           | None \<Rightarrow> w)
      | TextBody _ \<Rightarrow> w
      | NoBody \<Rightarrow> w)"

text \<open>
  \<open>processEmail\<close>. The classifier is the injected \<open>llmService\<close>, whose class is not
  among the sources: its \<open>analyzeTone\<close> is a parameter that returns an analysis or
  throws.
\<close>

definition EmailService_processEmail ::
  "(jsstring \<Rightarrow> error + ToneAnalysis) \<Rightarrow> Exchange \<Rightarrow> World \<Rightarrow> (error + Exchange) \<times> World" where
  "EmailService_processEmail llmService_analyzeTone exchange w =
     (case extractEmailFromExchange exchange w of
        (Inl e, w1) \<Rightarrow> (Inl e, EmailService_processEmail_catch exchange w1)
      | (Inr email, w1) \<Rightarrow>
          let w2 = EmailService_updateEmailStatus (idParam email) EmailStatus_PROCESSING w1;
              content' = orEmpty (content email)
          in case llmService_analyzeTone content' of
               Inl e \<Rightarrow> (Inl e, EmailService_processEmail_catch exchange w2)
             | Inr toneAnalysis' \<Rightarrow>
                 let processedEmail = email\<lparr> toneAnalysis := Some toneAnalysis',
                                             processedDate := Some (clock w2),
                                             status := EmailStatus_PROCESSED \<rparr>;
                     w3 = EmailService_saveAnalysisResults processedEmail w2
                 in (Inr (exchange\<lparr> body := EmailBody processedEmail \<rparr>), w3))"

definition EmailService_DEFAULT_REPLY :: jsstring where
  "EmailService_DEFAULT_REPLY =
     [0x0A] @ js ''Witaj,'' @ [0x0A, 0x0A] @ js ''Dzi'' @ [0x119] @ js ''kujemy za wiadomo''
     @ [0x15B, 0x107] @ js '' o temacie: '' @ [0x22] @ js ''{subject}'' @ [0x22] @ js ''.''
     @ [0x0A, 0x0A] @ js ''Otrzymali'' @ [0x15B] @ js ''my Twoj'' @ [0x105] @ js '' wiadomo''
     @ [0x15B, 0x107] @ js '' i zajmiemy si'' @ [0x119] @ js '' ni'' @ [0x105] @ js '' wkr''
     @ [0xF3] @ js ''tce.'' @ [0x0A, 0x0A] @ js ''Pozdrawiamy,'' @ [0x0A] @ js ''Zesp''
     @ [0xF3, 0x142] @ js '' Obs'' @ [0x142] @ js ''ugi Klienta'' @ [0x0A]"

text \<open>
  \<open>generateReply\<close>. The reply text comes from \<open>advancedReplyService.generateReply\<close>,
  whose file is not among the sources: a parameter that reads the body, its analysis
  and the store, and returns a text or throws. The \<open>catch\<close> reads the body again: of
  an absent body it throws in turn; a raw text has neither \<open>subject\<close> nor \<open>from\<close>.
\<close>

definition EmailService_generateReply ::
  "(Body \<Rightarrow> ToneAnalysis option \<Rightarrow> World \<Rightarrow> error + jsstring)
   \<Rightarrow> Exchange \<Rightarrow> World \<Rightarrow> (error + Exchange) \<times> World" where
  "EmailService_generateReply advancedReplyService_generateReply exchange w =
     (case body exchange of
        NoBody \<Rightarrow> (Inl TypeError, w)
      | email \<Rightarrow>
          (case advancedReplyService_generateReply email
                  (case email of EmailBody m \<Rightarrow> toneAnalysis m | _ \<Rightarrow> None) w of
             Inr replyText \<Rightarrow>
               (Inr (exchange\<lparr> body := TextBody replyText \<rparr>),
                EmailService_updateEmailStatus
                  (case email of EmailBody m \<Rightarrow> idParam m | _ \<Rightarrow> Null)
                  EmailStatus_REPLIED w)
           | Inl e \<Rightarrow>
               let defaultReply =
                     replace_str
                       (replace_str EmailService_DEFAULT_REPLY (js ''{subject}'')
                          (case email of EmailBody m \<Rightarrow> orEmpty (subject m) | _ \<Rightarrow> []))
                       (js ''{from}'')
                       (case email of EmailBody m \<Rightarrow> from_addr m | _ \<Rightarrow> js ''undefined'')
               in (Inr (exchange\<lparr> body := TextBody defaultReply \<rparr>), w)))"

section \<open>The route that sends the reply (camel-routes.xml) and the template endpoint (index.js)\<close>

text \<open>
  Route \<open>email-auto-responder\<close>: \<open>generateReply\<close>, then the headers \<open>subject\<close>, \<open>to\<close> and
  \<open>from\<close> are set and the exchange goes to SMTP. \<open>username\<close> is the property
  \<open>email.username\<close>.
\<close>

definition emailAutoResponder ::
  "(Body \<Rightarrow> ToneAnalysis option \<Rightarrow> World \<Rightarrow> error + jsstring)
   \<Rightarrow> jsstring \<Rightarrow> Exchange \<Rightarrow> World \<Rightarrow> (error + Exchange) \<times> World" where
  "emailAutoResponder advancedReplyService_generateReply username exchange w =
     (case EmailService_generateReply advancedReplyService_generateReply exchange w of
        (Inl e, w') \<Rightarrow> (Inl e, w')
      | (Inr replied, w') \<Rightarrow>
          let h = headers replied;
              subject' = js ''Re: '' @ orEmpty (header_subject h);
              to' = header_from h;
              sent = replied\<lparr> headers := \<lparr> header_from = username, header_to = to',
                                             header_subject = Some subject' \<rparr> \<rparr>
          in (Inr sent,
              w'\<lparr> outbox := outbox w' @ [\<lparr> mail_to = to', mail_subject = subject',
                                            mail_body = body sent \<rparr>] \<rparr>))"

text \<open>
  \<open>GET /api/templates/:key\<close>. The store of templates is read as a plain object from
  keys to texts (index.js lists it with \<open>Object.keys\<close> and takes a substring of every
  value), or is nothing before the service is up. \<open>templates[templateKey]\<close> finds an
  own template or else a member that every plain object inherits from
  \<open>Object.prototype\<close>; each of those is a function or an object, hence truthy, and the
  handler answers 200 with it as the content.
\<close>

definition objectPrototypeKeys :: "jsstring list" where
  "objectPrototypeKeys =
     [js ''constructor'', js ''__defineGetter__'', js ''__defineSetter__'',
      js ''hasOwnProperty'', js ''__lookupGetter__'', js ''__lookupSetter__'',
      js ''isPrototypeOf'', js ''propertyIsEnumerable'', js ''toString'', js ''valueOf'',
      js ''__proto__'', js ''toLocaleString'']"

datatype TemplateValue = TemplateText jsstring | InheritedMember

datatype Response = Status200 jsstring TemplateValue | Status404 jsstring | Status503

definition getTemplate :: "(jsstring \<times> jsstring) list option \<Rightarrow> jsstring \<Rightarrow> Response" where
  "getTemplate templates templateKey =
     (case templates of
        None \<Rightarrow> Status503
      | Some ts \<Rightarrow>
          (case map_of ts templateKey of
             Some template \<Rightarrow>
               if template = [] then Status404 templateKey
               else Status200 templateKey (TemplateText template)
           | None \<Rightarrow>
               if templateKey \<in> set objectPrototypeKeys
               then Status200 templateKey InheritedMember
               else Status404 templateKey))"

section \<open>Sequences of core operations\<close>

text \<open>
  A call of one of the three exported operations of the function version, with the
  exchange it is given, and what a sequence of calls leaves in the store.
\<close>

datatype CoreOp = ProcessEmail Exchange | ShouldAutoReply Exchange | GenerateReply Exchange

fun coreStep :: "World \<Rightarrow> CoreOp \<Rightarrow> World" where
  "coreStep w (ProcessEmail exchange) = snd (processEmail exchange w)"
| "coreStep w (ShouldAutoReply exchange) = (let decision = shouldAutoReply exchange in w)"
| "coreStep w (GenerateReply exchange) = snd (generateReply exchange w)"

definition runOps :: "CoreOp list \<Rightarrow> World \<Rightarrow> World" where
  "runOps ops w = foldl coreStep w ops"

definition storedStatus :: "World \<Rightarrow> nat \<Rightarrow> jsstring option" where
  "storedStatus w k = map_option status (find (\<lambda>row. id_num row = Some k) (emails w))"


text \<open>
  A store is well formed when no row id exceeds the number of rows: so it is in the
  empty store and after every \<open>INSERT\<close>, which numbers the new row with the count.
\<close>

definition wellFormedStore :: "World \<Rightarrow> bool" where
  "wellFormedStore w =
     list_all (\<lambda>row. case id_num row of None \<Rightarrow> True | Some n \<Rightarrow> n \<le> length (emails w))
       (emails w)"

text \<open>
  A call reprocesses when it is \<open>processEmail\<close> on an exchange whose body is a message
  that the store already holds as PROCESSED or REPLIED. A sequence is free of
  reprocessing when no call of it reprocesses in the store it meets.
\<close>

fun reprocesses :: "World \<Rightarrow> CoreOp \<Rightarrow> bool" where
  "reprocesses w (ProcessEmail exchange) =
     (case body exchange of
        EmailBody email \<Rightarrow>
          (case id_num email of
             Some k \<Rightarrow> storedStatus w k = Some EmailStatus_PROCESSED
                       \<or> storedStatus w k = Some EmailStatus_REPLIED
           | None \<Rightarrow> False)
      | TextBody _ \<Rightarrow> False
      | NoBody \<Rightarrow> False)"
| "reprocesses w (ShouldAutoReply exchange) = False"
| "reprocesses w (GenerateReply exchange) = False"

fun noReprocessing :: "World \<Rightarrow> CoreOp list \<Rightarrow> bool" where
  "noReprocessing w [] = True"
| "noReprocessing w (op # ops) =
     (if reprocesses w op then False else noReprocessing (coreStep w op) ops)"

section \<open>Sample data\<close>

text \<open>
  A store with nothing in it and no fault ahead, a raw exchange as the manual entry
  point and the mail route hand it in, and the same exchange after \<open>processEmail\<close>:
  its body is then the processed \<open>EmailMessage\<close>, which a caller can hand in again.
\<close>

definition emptyWorld :: World where
  "emptyWorld = \<lparr> emails = [], faults = [], clock = 0, outbox = [] \<rparr>"

definition sampleHeaders :: Headers where
  "sampleHeaders = \<lparr> header_from = js ''anna@example.com'', header_to = js ''office@example.com'',
                     header_subject = Some (js ''Invoice 7'') \<rparr>"

definition sampleEmail :: EmailMessage where
  "sampleEmail = \<lparr> id_num = Some 1, from_addr = js ''anna@example.com'',
                   to_addr = js ''office@example.com'', subject = Some (js ''Invoice 7''),
                   content = Some (js ''urgent problem''), receivedDate = 0,
                   processedDate = None, toneAnalysis = None, status = EmailStatus_PROCESSED \<rparr>"

definition processedSample :: EmailMessage where
  "processedSample = sampleEmail\<lparr> processedDate := Some 0,
                                    toneAnalysis := Some (analyzeTone (js ''urgent problem'')) \<rparr>"

definition criticalAnalysis :: ToneAnalysis where
  "criticalAnalysis = \<lparr> sentiment = Sentiment_VERY_POSITIVE,
                        emotions = [(Emotion_HAPPINESS, 8 / 10)], urgency = Urgency_CRITICAL,
                        formality = Formality_NEUTRAL, topTopics = [],
                        summaryText = js ''Great, but critical'' \<rparr>"

definition rawExchange :: Exchange where
  "rawExchange = \<lparr> body = TextBody (js ''urgent problem''), headers = sampleHeaders \<rparr>"

definition criticalExchange :: Exchange where
  "criticalExchange =
     rawExchange\<lparr> body := EmailBody (sampleEmail\<lparr> toneAnalysis := Some criticalAnalysis \<rparr>) \<rparr>"

definition processedExchange :: Exchange where
  "processedExchange =
     (case fst (processEmail rawExchange emptyWorld) of
        Inr exchange \<Rightarrow> exchange
      | Inl e \<Rightarrow> rawExchange)"

definition processedWorld :: World where
  "processedWorld = snd (processEmail rawExchange emptyWorld)"

text \<open>A classifier and a reply service that throw, and the classifier of llmService.js.\<close>

definition failingClassifier :: "jsstring \<Rightarrow> error + ToneAnalysis" where
  "failingClassifier text = Inl ClassificationError"

definition mockClassifier :: "jsstring \<Rightarrow> error + ToneAnalysis" where
  "mockClassifier text = Inr (analyzeTone text)"

definition missingTemplate :: "Body \<Rightarrow> ToneAnalysis option \<Rightarrow> World \<Rightarrow> error + jsstring" where
  "missingTemplate email analysis w = Inl TemplateNotFound"

section \<open>Facts about strings\<close>

lemma includes_str_set: "includes_str s t \<Longrightarrow> set t \<subseteq> set s"
proof (induction s)
  case Nil
  then show ?case by simp
next
  case (Cons c cs)
  from Cons.prems have "take (length t) (c # cs) = t \<or> includes_str cs t" by simp
  then show ?case
  proof
    assume "take (length t) (c # cs) = t"
    then have "set t = set (take (length t) (c # cs))" by simp
    also have "\<dots> \<subseteq> set (c # cs)" by (rule set_take_subset)
    finally show ?thesis .
  next
    assume "includes_str cs t"
    with Cons.IH show ?thesis by auto
  qed
qed

lemma trim_nil_iff: "trim s = [] \<longleftrightarrow> list_all isWhiteSpace s"
proof
  assume "trim s = []"
  then have a: "list_all isWhiteSpace (dropWhile isWhiteSpace s)"
    by (simp add: trim_def dropWhile_eq_Nil_conv list_all_iff)
  show "list_all isWhiteSpace s"
  proof (cases "dropWhile isWhiteSpace s")
    case Nil
    then show ?thesis by (simp add: dropWhile_eq_Nil_conv list_all_iff)
  next
    case (Cons x xs)
    then have "\<not> isWhiteSpace x" using hd_dropWhile [of isWhiteSpace s] by auto
    with a Cons show ?thesis by simp
  qed
next
  assume "list_all isWhiteSpace s"
  then have "dropWhile isWhiteSpace s = []" by (simp add: list_all_iff)
  then have "trim s = rev (dropWhile isWhiteSpace (rev []))" by (simp only: trim_def)
  then show "trim s = []" by simp
qed

lemma blank_iff: "(s = [] \<or> trim s = []) \<longleftrightarrow> list_all isWhiteSpace s"
  by (auto simp: trim_nil_iff)

lemma toLowerCaseUnit_white: "isWhiteSpace c \<Longrightarrow> toLowerCaseUnit c = [c]"
  unfolding isWhiteSpace_def toLowerCaseUnit_def by (auto simp: word_le_nat_alt)

lemma toLowerCase_white: "list_all isWhiteSpace s \<Longrightarrow> toLowerCase s = s"
  by (induction s) (simp_all add: toLowerCase_def toLowerCaseUnit_white)

text \<open>A text made of white space holds no keyword, before or after lower-casing.\<close>

lemma blank_no_letter:
  assumes "list_all isWhiteSpace s" and "includes_str (toLowerCase s) t" and "c \<in> set t"
  shows "isWhiteSpace c"
proof -
  from assms(1,2) have "includes_str s t" by (simp add: toLowerCase_white)
  then have "set t \<subseteq> set s" by (rule includes_str_set)
  with assms(1,3) show ?thesis by (auto simp: list_all_iff)
qed

section \<open>The classifier\<close>

lemma keyword_not_blank:
  assumes "includes_str (toLowerCase raw) t" and "c \<in> set t" and "\<not> isWhiteSpace c"
  shows "analyzeTone raw = mockAnalysis raw"
proof -
  have "\<not> list_all isWhiteSpace raw"
    using blank_no_letter assms by blast
  then show ?thesis by (simp add: analyzeTone_def blank_iff)
qed

lemma sentiment_mock: "sentiment (mockAnalysis raw) = fst (detectSentiment (toLowerCase raw))"
  by (simp add: mockAnalysis_def Let_def split: prod.split)

lemma emotions_mock: "emotions (mockAnalysis raw) = snd (detectSentiment (toLowerCase raw))"
  by (simp add: mockAnalysis_def Let_def split: prod.split)

lemma urgency_mock: "urgency (mockAnalysis raw) = detectUrgency (toLowerCase raw)"
  by (simp add: mockAnalysis_def Let_def split: prod.split)

lemma formality_mock: "formality (mockAnalysis raw) = detectFormality (toLowerCase raw)"
  by (simp add: mockAnalysis_def Let_def split: prod.split)

lemma topTopics_mock: "topTopics (mockAnalysis raw) = extractTopics (toLowerCase raw)"
  by (simp add: mockAnalysis_def Let_def split: prod.split)

lemma negative_keyword_letters:
  "0x70 \<in> set (js ''problem'')" "0x65 \<in> set (js ''error'')" "0x69 \<in> set (js ''issue'')"
  "\<not> isWhiteSpace 0x70" "\<not> isWhiteSpace 0x65" "\<not> isWhiteSpace 0x69"
  by (simp_all add: js_def isWhiteSpace_def)

lemma Emotion_NEUTRAL_not_SADNESS: "Emotion_NEUTRAL \<noteq> Emotion_SADNESS"
  by (simp add: Emotion_NEUTRAL_def Emotion_SADNESS_def js_def)

text \<open>
  Claim C3. If the lower-cased text contains "problem", "error" or "issue", the
  classifier assigns the sentiment NEGATIVE, whatever else the text contains, "angry",
  "frustrated" and "terrible" included: the NEGATIVE branch is tested first and only
  the first matching branch runs, so the emotions are those of the NEGATIVE branch
  alone.
\<close>

theorem negative_checked_before_very_negative:
  assumes "includes_str (toLowerCase raw) (js ''problem'')
           \<or> includes_str (toLowerCase raw) (js ''error'')
           \<or> includes_str (toLowerCase raw) (js ''issue'')"
  shows "sentiment (analyzeTone raw) = Sentiment_NEGATIVE
         \<and> emotions (analyzeTone raw) = [(Emotion_NEUTRAL, 3 / 10), (Emotion_SADNESS, 5 / 10)]"
proof -
  have "analyzeTone raw = mockAnalysis raw"
    using assms keyword_not_blank negative_keyword_letters by blast
  moreover have "detectSentiment (toLowerCase raw)
      = (Sentiment_NEGATIVE, [(Emotion_NEUTRAL, 3 / 10), (Emotion_SADNESS, 5 / 10)])"
    using assms by (simp add: detectSentiment_def Let_def Emotion_NEUTRAL_not_SADNESS)
  ultimately show ?thesis by (simp add: sentiment_mock emotions_mock)
qed

theorem negative_checked_before_very_negative_witness:
  "includes_str (toLowerCase (js ''I am ANGRY about this Problem'')) (js ''angry'')
   \<and> includes_str (toLowerCase (js ''I am ANGRY about this Problem'')) (js ''problem'')
   \<and> sentiment (analyzeTone (js ''I am ANGRY about this Problem'')) = Sentiment_NEGATIVE
   \<and> emotions (analyzeTone (js ''I am ANGRY about this Problem''))
       = [(Emotion_NEUTRAL, 3 / 10), (Emotion_SADNESS, 5 / 10)]"
proof -
  have a: "includes_str (toLowerCase (js ''I am ANGRY about this Problem'')) (js ''angry'')"
    by code_simp
  have p: "includes_str (toLowerCase (js ''I am ANGRY about this Problem'')) (js ''problem'')"
    by code_simp
  from p have "includes_str (toLowerCase (js ''I am ANGRY about this Problem'')) (js ''problem'')
           \<or> includes_str (toLowerCase (js ''I am ANGRY about this Problem'')) (js ''error'')
           \<or> includes_str (toLowerCase (js ''I am ANGRY about this Problem'')) (js ''issue'')"
    by (rule disjI1)
  from negative_checked_before_very_negative [OF this] a p show ?thesis
    by (intro conjI) (rule a, rule p, simp_all only:)
qed

lemma blank_no_keyword:
  assumes "list_all isWhiteSpace s" and "\<not> list_all isWhiteSpace t"
  shows "\<not> includes_str (toLowerCase s) t"
  using assms blank_no_letter [of s t] by (auto simp: list_all_iff)

lemma urgency_keywords_not_blank:
  "\<not> list_all isWhiteSpace (js ''urgent'')" "\<not> list_all isWhiteSpace (js ''asap'')"
  "\<not> list_all isWhiteSpace (js ''immediately'')" "\<not> list_all isWhiteSpace (js ''critical'')"
  "\<not> list_all isWhiteSpace (js ''emergency'')" "\<not> list_all isWhiteSpace (js ''when you have time'')"
  "\<not> list_all isWhiteSpace (js ''no rush'')"
  by (simp_all add: js_def isWhiteSpace_def)

lemma detectUrgency_blank:
  "list_all isWhiteSpace raw \<Longrightarrow> detectUrgency (toLowerCase raw) = Urgency_NORMAL"
  by (simp add: detectUrgency_def blank_no_keyword urgency_keywords_not_blank)

text \<open>The default analysis has the urgency that the cascade gives a blank text.\<close>

lemma urgency_analyzeTone: "urgency (analyzeTone raw) = detectUrgency (toLowerCase raw)"
proof (cases "list_all isWhiteSpace raw")
  case True
  then show ?thesis by (simp add: analyzeTone_def blank_iff createDefault_def detectUrgency_blank)
next
  case False
  then show ?thesis by (simp add: analyzeTone_def blank_iff urgency_mock)
qed

lemma Urgency_distinct:
  "Urgency_HIGH \<noteq> Urgency_CRITICAL" "Urgency_LOW \<noteq> Urgency_CRITICAL"
  "Urgency_NORMAL \<noteq> Urgency_CRITICAL" "Urgency_NORMAL \<noteq> Urgency_HIGH"
  "Urgency_LOW \<noteq> Urgency_HIGH" "Urgency_LOW \<noteq> Urgency_NORMAL"
  by (simp_all add: Urgency_HIGH_def Urgency_CRITICAL_def Urgency_LOW_def Urgency_NORMAL_def js_def)

lemma Sentiment_distinct:
  "Sentiment_POSITIVE \<noteq> Sentiment_NEGATIVE" "Sentiment_POSITIVE \<noteq> Sentiment_VERY_NEGATIVE"
  "Sentiment_NEUTRAL \<noteq> Sentiment_NEGATIVE" "Sentiment_NEUTRAL \<noteq> Sentiment_VERY_NEGATIVE"
  "Sentiment_NEGATIVE \<noteq> Sentiment_VERY_NEGATIVE"
  by (simp_all add: Sentiment_POSITIVE_def Sentiment_NEGATIVE_def Sentiment_VERY_NEGATIVE_def
      Sentiment_NEUTRAL_def js_def)

lemma sentiment_keywords_not_blank:
  "\<not> list_all isWhiteSpace (js ''problem'')" "\<not> list_all isWhiteSpace (js ''error'')"
  "\<not> list_all isWhiteSpace (js ''issue'')" "\<not> list_all isWhiteSpace (js ''angry'')"
  "\<not> list_all isWhiteSpace (js ''frustrated'')" "\<not> list_all isWhiteSpace (js ''terrible'')"
  "\<not> list_all isWhiteSpace (js ''thanks'')" "\<not> list_all isWhiteSpace (js ''good'')"
  "\<not> list_all isWhiteSpace (js ''happy'')" "\<not> list_all isWhiteSpace (js ''excellent'')"
  "\<not> list_all isWhiteSpace (js ''amazing'')" "\<not> list_all isWhiteSpace (js ''great'')"
  by (simp_all add: js_def isWhiteSpace_def)

lemma detectSentiment_blank:
  "list_all isWhiteSpace raw \<Longrightarrow> fst (detectSentiment (toLowerCase raw)) = Sentiment_NEUTRAL"
  by (simp add: detectSentiment_def Let_def blank_no_keyword sentiment_keywords_not_blank)

lemma sentiment_analyzeTone: "sentiment (analyzeTone raw) = fst (detectSentiment (toLowerCase raw))"
proof (cases "list_all isWhiteSpace raw")
  case True
  then show ?thesis by (simp add: analyzeTone_def blank_iff createDefault_def detectSentiment_blank)
next
  case False
  then show ?thesis by (simp add: analyzeTone_def blank_iff sentiment_mock)
qed

text \<open>
  Claim C10. If the lower-cased text contains "urgent", "asap" or "immediately", the
  classifier assigns the urgency HIGH, also when the text contains "critical" or
  "emergency"; the urgency is CRITICAL exactly when one of the critical keywords occurs
  and none of the HIGH keywords does.
\<close>

theorem high_checked_before_critical:
  "(includes_str (toLowerCase raw) (js ''urgent'') \<or> includes_str (toLowerCase raw) (js ''asap'')
      \<or> includes_str (toLowerCase raw) (js ''immediately'')
    \<longrightarrow> urgency (analyzeTone raw) = Urgency_HIGH)
   \<and> (urgency (analyzeTone raw) = Urgency_CRITICAL
      \<longleftrightarrow> (includes_str (toLowerCase raw) (js ''critical'')
           \<or> includes_str (toLowerCase raw) (js ''emergency''))
          \<and> \<not> (includes_str (toLowerCase raw) (js ''urgent'')
               \<or> includes_str (toLowerCase raw) (js ''asap'')
               \<or> includes_str (toLowerCase raw) (js ''immediately'')))"
  unfolding urgency_analyzeTone detectUrgency_def using Urgency_distinct by auto

theorem high_checked_before_critical_witness:
  "includes_str (toLowerCase (js ''URGENT: critical outage'')) (js ''urgent'')
   \<and> includes_str (toLowerCase (js ''URGENT: critical outage'')) (js ''critical'')
   \<and> urgency (analyzeTone (js ''URGENT: critical outage'')) = Urgency_HIGH
   \<and> urgency (analyzeTone (js ''URGENT: critical outage'')) \<noteq> Urgency_CRITICAL
   \<and> urgency (analyzeTone (js ''a critical outage'')) = Urgency_CRITICAL"
proof -
  have u: "includes_str (toLowerCase (js ''URGENT: critical outage'')) (js ''urgent'')"
    by code_simp
  have c: "includes_str (toLowerCase (js ''URGENT: critical outage'')) (js ''critical'')"
    by code_simp
  have c': "includes_str (toLowerCase (js ''a critical outage'')) (js ''critical'')"
    by code_simp
  have n: "\<not> includes_str (toLowerCase (js ''a critical outage'')) (js ''urgent'')"
    "\<not> includes_str (toLowerCase (js ''a critical outage'')) (js ''asap'')"
    "\<not> includes_str (toLowerCase (js ''a critical outage'')) (js ''immediately'')"
    by code_simp+
  have h: "urgency (analyzeTone (js ''URGENT: critical outage'')) = Urgency_HIGH"
    using high_checked_before_critical [of "js ''URGENT: critical outage''"] u by blast
  have k: "urgency (analyzeTone (js ''a critical outage'')) = Urgency_CRITICAL"
    using high_checked_before_critical [of "js ''a critical outage''"] c' n by blast
  from h have "urgency (analyzeTone (js ''URGENT: critical outage'')) \<noteq> Urgency_CRITICAL"
    using Urgency_distinct by simp
  with u c h k show ?thesis by (intro conjI)
qed

text \<open>
  Claim C2. For a text that is empty or made of white space only, the classifier
  returns the fixed default analysis: sentiment NEUTRAL, urgency NORMAL, formality
  NEUTRAL, the emotions NEUTRAL with weight 1 and nothing else, no topic, and the fixed
  summary that the content cannot be analysed.
\<close>

theorem analyzeTone_blank_default:
  assumes "\<forall>c \<in> set raw. isWhiteSpace c"
  shows "analyzeTone raw =
           \<lparr> sentiment = Sentiment_NEUTRAL, emotions = [(Emotion_NEUTRAL, 1)],
             urgency = Urgency_NORMAL, formality = Formality_NEUTRAL, topTopics = [],
             summaryText = js ''Nie mo'' @ [0x17C] @ js ''na przeanalizowa'' @ [0x107]
                           @ js '' tre'' @ [0x15B] @ js ''ci wiadomo'' @ [0x15B] @ js ''ci.'' \<rparr>"
proof -
  from assms have "list_all isWhiteSpace raw" by (simp add: list_all_iff)
  then have "raw = [] \<or> trim raw = []" by (simp add: blank_iff)
  then show ?thesis by (auto simp add: analyzeTone_def createDefault_def)
qed

theorem analyzeTone_blank_default_witness:
  "analyzeTone [] =
           \<lparr> sentiment = Sentiment_NEUTRAL, emotions = [(Emotion_NEUTRAL, 1)],
             urgency = Urgency_NORMAL, formality = Formality_NEUTRAL, topTopics = [],
             summaryText = js ''Nie mo'' @ [0x17C] @ js ''na przeanalizowa'' @ [0x107]
                           @ js '' tre'' @ [0x15B] @ js ''ci wiadomo'' @ [0x15B] @ js ''ci.'' \<rparr>
   \<and> analyzeTone [0x20, 0x09, 0x0A, 0xA0, 0x3000] =
           \<lparr> sentiment = Sentiment_NEUTRAL, emotions = [(Emotion_NEUTRAL, 1)],
             urgency = Urgency_NORMAL, formality = Formality_NEUTRAL, topTopics = [],
             summaryText = js ''Nie mo'' @ [0x17C] @ js ''na przeanalizowa'' @ [0x107]
                           @ js '' tre'' @ [0x15B] @ js ''ci wiadomo'' @ [0x15B] @ js ''ci.'' \<rparr>"
proof -
  have a: "\<forall>c \<in> set ([] :: jsstring). isWhiteSpace c" by simp
  have b: "\<forall>c \<in> set [0x20, 0x09, 0x0A, 0xA0, 0x3000 :: 16 word]. isWhiteSpace c"
    by (simp add: isWhiteSpace_def)
  show ?thesis
    using analyzeTone_blank_default [OF a] analyzeTone_blank_default [OF b] by (intro conjI)
qed

lemma detectSentiment_in: "fst (detectSentiment lowerContent) \<in> set Sentiment"
  by (simp add: detectSentiment_def Sentiment_def Let_def)

lemma detectUrgency_in: "detectUrgency lowerContent \<in> set Urgency"
  by (simp add: detectUrgency_def Urgency_def)

lemma detectFormality_in: "detectFormality lowerContent \<in> set Formality"
  by (simp add: detectFormality_def Formality_def)

text \<open>\<open>slice(0, 4)\<close> bounds the topics, whatever was counted and however it was sorted.\<close>

lemma extractTopics_length: "length (extractTopics lowerContent) \<le> 4"
  by (simp add: extractTopics_def Let_def)

lemma createDefault_in:
  "sentiment createDefault \<in> set Sentiment" "urgency createDefault \<in> set Urgency"
  "formality createDefault \<in> set Formality" "length (topTopics createDefault) \<le> 4"
  by (simp_all add: createDefault_def Sentiment_def Urgency_def Formality_def)

text \<open>
  Claim C8. For every non-empty text the classifier returns an analysis whose
  sentiment, urgency and formality are members of the enumerations Sentiment, Urgency
  and Formality, and whose list of topics has at most four entries.
\<close>

theorem analyzeTone_enumerated:
  assumes "raw \<noteq> []"
  shows "sentiment (analyzeTone raw) \<in> set Sentiment
         \<and> urgency (analyzeTone raw) \<in> set Urgency
         \<and> formality (analyzeTone raw) \<in> set Formality
         \<and> length (topTopics (analyzeTone raw)) \<le> 4"
proof (cases "trim raw = []")
  case True
  then have "analyzeTone raw = createDefault" by (simp add: analyzeTone_def)
  then show ?thesis by (simp only: createDefault_in simp_thms)
next
  case False
  with assms have "analyzeTone raw = mockAnalysis raw" by (simp add: analyzeTone_def)
  then show ?thesis
    by (simp only: sentiment_mock urgency_mock formality_mock topTopics_mock
        detectSentiment_in detectUrgency_in detectFormality_in extractTopics_length simp_thms)
qed

theorem analyzeTone_enumerated_witness:
  "js ''alfa beta gamma delta kappa'' \<noteq> []
   \<and> sentiment (analyzeTone (js ''alfa beta gamma delta kappa'')) \<in> set Sentiment
   \<and> urgency (analyzeTone (js ''alfa beta gamma delta kappa'')) \<in> set Urgency
   \<and> formality (analyzeTone (js ''alfa beta gamma delta kappa'')) \<in> set Formality
   \<and> length (topTopics (analyzeTone (js ''alfa beta gamma delta kappa''))) \<le> 4
   \<and> topTopics (analyzeTone (js ''alfa beta gamma delta kappa''))
       = [js ''alfa'', js ''beta'', js ''gamma'', js ''delta'']"
proof -
  have n: "js ''alfa beta gamma delta kappa'' \<noteq> []" by (simp add: js_def)
  have "\<not> list_all isWhiteSpace (js ''alfa beta gamma delta kappa'')"
    by (simp add: js_def isWhiteSpace_def)
  then have "topTopics (analyzeTone (js ''alfa beta gamma delta kappa''))
       = extractTopics (toLowerCase (js ''alfa beta gamma delta kappa''))"
    by (simp only: analyzeTone_def blank_iff if_False topTopics_mock)
  also have "\<dots> = [js ''alfa'', js ''beta'', js ''gamma'', js ''delta'']"
    by (simp add: extractTopics_def splitNonWord_def isWordChar_def stopWords_def
        toLowerCase_def toLowerCaseUnit_def countWord_def entries_def isArrayIndex_def
        isDigit_def sortEntries_def js_def)
  finally have t: "topTopics (analyzeTone (js ''alfa beta gamma delta kappa''))
       = [js ''alfa'', js ''beta'', js ''gamma'', js ''delta'']" .
  from analyzeTone_enumerated [OF n] n t show ?thesis by blast
qed

section \<open>The reply decision\<close>

text \<open>
  Claim C1. \<open>shouldAutoReply\<close> is true exactly when the urgency of the analysis is HIGH
  or CRITICAL or its sentiment is NEGATIVE or VERY_NEGATIVE; it is false in every other
  case, also when the message has no analysis, and when the body of the exchange is not
  a message at all.
\<close>

theorem shouldAutoReply_iff:
  "(shouldAutoReply (exchange\<lparr> body := EmailBody (email\<lparr> toneAnalysis := Some analysis \<rparr>) \<rparr>)
      \<longleftrightarrow> urgency analysis = Urgency_HIGH \<or> urgency analysis = Urgency_CRITICAL
          \<or> sentiment analysis = Sentiment_NEGATIVE \<or> sentiment analysis = Sentiment_VERY_NEGATIVE)
   \<and> \<not> shouldAutoReply (exchange\<lparr> body := EmailBody (email\<lparr> toneAnalysis := None \<rparr>) \<rparr>)
   \<and> \<not> shouldAutoReply (exchange\<lparr> body := TextBody raw \<rparr>)
   \<and> \<not> shouldAutoReply (exchange\<lparr> body := NoBody \<rparr>)"
  by (simp add: shouldAutoReply_def)

text \<open>
  The scenarios of the specification: "This is urgent, please help ASAP" is answered,
  "Thanks, great service!" and the empty text are not.
\<close>

theorem shouldAutoReply_iff_witness:
  "shouldAutoReply (rawExchange\<lparr> body := EmailBody (sampleEmail\<lparr> toneAnalysis :=
       Some (analyzeTone (js ''This is urgent, please help ASAP'')) \<rparr>) \<rparr>)
   \<and> \<not> shouldAutoReply (rawExchange\<lparr> body := EmailBody (sampleEmail\<lparr> toneAnalysis :=
       Some (analyzeTone (js ''Thanks, great service!'')) \<rparr>) \<rparr>)
   \<and> \<not> shouldAutoReply (rawExchange\<lparr> body := EmailBody (sampleEmail\<lparr> toneAnalysis :=
       Some (analyzeTone []) \<rparr>) \<rparr>)"
proof -
  have a: "urgency (analyzeTone (js ''This is urgent, please help ASAP'')) = Urgency_HIGH"
    unfolding urgency_analyzeTone by code_simp
  have b: "urgency (analyzeTone (js ''Thanks, great service!'')) = Urgency_NORMAL"
    "sentiment (analyzeTone (js ''Thanks, great service!'')) = Sentiment_POSITIVE"
    unfolding urgency_analyzeTone sentiment_analyzeTone by code_simp+
  have c: "urgency (analyzeTone []) = Urgency_NORMAL" "sentiment (analyzeTone []) = Sentiment_NEUTRAL"
    by (simp_all add: analyzeTone_def createDefault_def)
  show ?thesis
    using shouldAutoReply_iff [where exchange = rawExchange and email = sampleEmail
          and analysis = "analyzeTone (js ''This is urgent, please help ASAP'')"]
      shouldAutoReply_iff [where exchange = rawExchange and email = sampleEmail
          and analysis = "analyzeTone (js ''Thanks, great service!'')"]
      shouldAutoReply_iff [where exchange = rawExchange and email = sampleEmail
          and analysis = "analyzeTone []"]
      a b c Urgency_distinct Sentiment_distinct
    by simp
qed

text \<open>
  Claim C9. Two analyses with the same sentiment and the same urgency get the same
  decision from \<open>shouldAutoReply\<close>, however they differ in emotions, topics, summary (or
  formality), and whatever message and exchange carry them: the decision is a function
  of the pair of sentiment and urgency.
\<close>

theorem shouldAutoReply_depends_on_sentiment_urgency_only:
  assumes "sentiment a = sentiment b" and "urgency a = urgency b"
  shows "shouldAutoReply (exchange1\<lparr> body := EmailBody (email1\<lparr> toneAnalysis := Some a \<rparr>) \<rparr>)
         = shouldAutoReply (exchange2\<lparr> body := EmailBody (email2\<lparr> toneAnalysis := Some b \<rparr>) \<rparr>)"
  using assms by (simp add: shouldAutoReply_def)

theorem shouldAutoReply_depends_on_sentiment_urgency_only_witness:
  "shouldAutoReply (rawExchange\<lparr> body := EmailBody (sampleEmail\<lparr> toneAnalysis :=
       Some \<lparr> sentiment = Sentiment_NEGATIVE, emotions = [(Emotion_SADNESS, 5 / 10)],
              urgency = Urgency_NORMAL, formality = Formality_NEUTRAL,
              topTopics = [js ''invoice''], summaryText = js ''There is a problem'' \<rparr> \<rparr>) \<rparr>)
   = shouldAutoReply (rawExchange\<lparr> body := EmailBody (sampleEmail\<lparr> toneAnalysis :=
       Some \<lparr> sentiment = Sentiment_NEGATIVE, emotions = [(Emotion_ANGER, 1)],
              urgency = Urgency_NORMAL, formality = Formality_FORMAL,
              topTopics = [], summaryText = [] \<rparr> \<rparr>) \<rparr>)"
  by (rule shouldAutoReply_depends_on_sentiment_urgency_only) simp_all

section \<open>The store\<close>



lemma emails_nextStatement: "emails (nextStatement w) = emails w"
  by (simp add: nextStatement_def)









lemma EmailStatus_distinct:
  "EmailStatus_PROCESSING \<noteq> EmailStatus_RECEIVED" "EmailStatus_PROCESSED \<noteq> EmailStatus_RECEIVED"
  "EmailStatus_REPLIED \<noteq> EmailStatus_RECEIVED" "EmailStatus_PROCESSED \<noteq> EmailStatus_PROCESSING"
  "EmailStatus_REPLIED \<noteq> EmailStatus_PROCESSING" "EmailStatus_REPLIED \<noteq> EmailStatus_PROCESSED"
  "EmailStatus_ERROR \<noteq> EmailStatus_RECEIVED" "EmailStatus_ERROR \<noteq> EmailStatus_PROCESSING"
  "EmailStatus_ERROR \<noteq> EmailStatus_PROCESSED" "EmailStatus_ERROR \<noteq> EmailStatus_REPLIED"
  by (simp_all add: EmailStatus_RECEIVED_def EmailStatus_PROCESSING_def EmailStatus_PROCESSED_def
      EmailStatus_REPLIED_def EmailStatus_ERROR_def js_def)

section \<open>The sample run\<close>

text \<open>
  \<open>processEmail\<close> on the raw sample exchange and the empty store: the message is
  stored with id 1, classified, and left as PROCESSED in the store and in the body.
\<close>

lemma processEmail_rawExchange:
  "processEmail rawExchange emptyWorld
   = (Inr (rawExchange\<lparr> body := EmailBody processedSample \<rparr>),
      emptyWorld\<lparr> emails := [processedSample] \<rparr>)"
  by (simp add: processEmail_def extractEmailFromExchange_def saveEmailToDatabase_def
      updateEmailStatus_def saveAnalysisResults_def rawExchange_def emptyWorld_def
      sampleHeaders_def processedSample_def sampleEmail_def dbFails_def nextStatement_def
      idParam_def matchesId_def orEmpty_def Let_def)

lemma processedExchange_eq: "processedExchange = rawExchange\<lparr> body := EmailBody processedSample \<rparr>"
  by (simp add: processedExchange_def processEmail_rawExchange)

lemma processedWorld_eq: "processedWorld = emptyWorld\<lparr> emails := [processedSample] \<rparr>"
  by (simp add: processedWorld_def processEmail_rawExchange)

lemma id_processedSample: "id_num processedSample = Some 1" "status processedSample = EmailStatus_PROCESSED"
  "processedDate processedSample = Some 0"
  by (simp_all add: processedSample_def sampleEmail_def)

lemma generateReply_processed_world:
  "snd (generateReply processedExchange processedWorld)
   = emptyWorld\<lparr> emails := [processedSample\<lparr> status := EmailStatus_REPLIED \<rparr>] \<rparr>"
  by (simp add: generateReply_def processedExchange_eq processedWorld_eq updateEmailStatus_def
      emptyWorld_def dbFails_def nextStatement_def idParam_def matchesId_def id_processedSample
      Let_def)


section \<open>Choosing the reply template\<close>

lemma URGENT_REPLY_distinct:
  "URGENT_REPLY \<noteq> DEFAULT_REPLY" "URGENT_REPLY \<noteq> HIGH_PRIORITY_REPLY"
  "URGENT_REPLY \<noteq> NEGATIVE_REPLY" "URGENT_REPLY \<noteq> VERY_NEGATIVE_REPLY"
  "URGENT_REPLY \<noteq> POSITIVE_REPLY"
  by (simp_all add: URGENT_REPLY_def DEFAULT_REPLY_def HIGH_PRIORITY_REPLY_def NEGATIVE_REPLY_def
      VERY_NEGATIVE_REPLY_def POSITIVE_REPLY_def js_def)

text \<open>
  What \<open>generateReply\<close> leaves in the body for a message: the template of the
  switch, personalised, or the bare default template when the status update throws.
\<close>

lemma generateReply_EmailBody:
  "fst (generateReply (exchange\<lparr> body := EmailBody email \<rparr>) w)
   = exchange\<lparr> body := TextBody (if dbFails w then DEFAULT_REPLY
                                   else personalise (replyTemplate (toneAnalysis email)) email) \<rparr>"
  by (cases "idParam email") (simp_all add: generateReply_def updateEmailStatus_def Let_def)

lemma personalise_URGENT_sample:
  "personalise URGENT_REPLY (sampleEmail\<lparr> toneAnalysis := Some criticalAnalysis \<rparr>)
   = replace_str URGENT_REPLY (js ''{subject}'') (js ''Invoice 7'')"
  by (simp add: personalise_def replace_str_def URGENT_REPLY_def sampleEmail_def orEmpty_def
      criticalAnalysis_def js_def Let_def)

lemma DEFAULT_REPLY_not_personalised_URGENT:
  "DEFAULT_REPLY \<noteq> personalise URGENT_REPLY (sampleEmail\<lparr> toneAnalysis := Some criticalAnalysis \<rparr>)"
  by (simp add: personalise_def replace_str_def URGENT_REPLY_def DEFAULT_REPLY_def sampleEmail_def
      orEmpty_def criticalAnalysis_def js_def Let_def)

text \<open>
  Claim C4 says that a message of urgency CRITICAL gets the urgent-critical template.
  The switch of \<open>generateReply\<close> picks it, but the status update comes after the reply
  text, inside the same \<open>try\<close>: when the update throws, the \<open>catch\<close> puts the bare
  default template in the body. On the sample message with a CRITICAL analysis and a
  store that fails at the next statement the reply is \<open>DEFAULT_REPLY\<close>, which is
  neither the urgent template nor the urgent template personalised.
\<close>

theorem critical_reply_lost_when_update_fails:
  "urgency criticalAnalysis = Urgency_CRITICAL
   \<and> body criticalExchange = EmailBody (sampleEmail\<lparr> toneAnalysis := Some criticalAnalysis \<rparr>)
   \<and> fst (generateReply criticalExchange (emptyWorld\<lparr> faults := [True] \<rparr>))
       = criticalExchange\<lparr> body := TextBody DEFAULT_REPLY \<rparr>
   \<and> DEFAULT_REPLY \<noteq> URGENT_REPLY
   \<and> DEFAULT_REPLY \<noteq> personalise URGENT_REPLY (sampleEmail\<lparr> toneAnalysis := Some criticalAnalysis \<rparr>)"
proof -
  have "fst (generateReply criticalExchange (emptyWorld\<lparr> faults := [True] \<rparr>))
       = criticalExchange\<lparr> body := TextBody DEFAULT_REPLY \<rparr>"
    unfolding criticalExchange_def
    by (simp add: generateReply_EmailBody dbFails_def emptyWorld_def)
  then show ?thesis
    using URGENT_REPLY_distinct(1) DEFAULT_REPLY_not_personalised_URGENT
    by (simp add: criticalAnalysis_def criticalExchange_def)
qed

text \<open>
  Claim C4, amended. For a message whose analysis has the urgency CRITICAL, the switch
  of \<open>generateReply\<close> picks the urgent-critical template \<open>URGENT_REPLY\<close>, whatever the
  sentiment and the other fields of the analysis (the operation takes no sender
  history); the reply left in the exchange is that template personalised when the
  status update succeeds, and the bare \<open>DEFAULT_REPLY\<close> when the status update throws.
\<close>

theorem critical_reply_urgent_unless_update_fails:
  assumes "urgency analysis = Urgency_CRITICAL"
  shows "replyTemplate (Some analysis) = URGENT_REPLY
         \<and> fst (generateReply (exchange\<lparr> body := EmailBody (email\<lparr> toneAnalysis := Some analysis \<rparr>) \<rparr>) w)
           = exchange\<lparr> body := TextBody
                (if dbFails w then DEFAULT_REPLY
                 else personalise URGENT_REPLY (email\<lparr> toneAnalysis := Some analysis \<rparr>)) \<rparr>"
proof -
  from assms have t: "replyTemplate (Some analysis) = URGENT_REPLY" by (simp add: replyTemplate_def)
  then show ?thesis by (simp add: generateReply_EmailBody)
qed

theorem critical_reply_urgent_unless_update_fails_witness:
  "urgency criticalAnalysis = Urgency_CRITICAL
   \<and> replyTemplate (Some criticalAnalysis) = URGENT_REPLY
   \<and> fst (generateReply (rawExchange\<lparr> body := EmailBody (sampleEmail\<lparr> toneAnalysis := Some criticalAnalysis \<rparr>) \<rparr>)
            emptyWorld)
       = rawExchange\<lparr> body := TextBody
           (personalise URGENT_REPLY (sampleEmail\<lparr> toneAnalysis := Some criticalAnalysis \<rparr>)) \<rparr>
   \<and> fst (generateReply (rawExchange\<lparr> body := EmailBody (sampleEmail\<lparr> toneAnalysis := Some criticalAnalysis \<rparr>) \<rparr>)
            (emptyWorld\<lparr> faults := [True] \<rparr>))
       = rawExchange\<lparr> body := TextBody DEFAULT_REPLY \<rparr>"
proof -
  have u: "urgency criticalAnalysis = Urgency_CRITICAL" by (simp add: criticalAnalysis_def)
  have d: "\<not> dbFails emptyWorld" "dbFails (emptyWorld\<lparr> faults := [True] \<rparr>)"
    by (simp_all add: dbFails_def emptyWorld_def)
  from critical_reply_urgent_unless_update_fails
         [OF u, where w = emptyWorld and exchange = rawExchange and email = sampleEmail]
       critical_reply_urgent_unless_update_fails
         [OF u, where w = "emptyWorld\<lparr> faults := [True] \<rparr>" and exchange = rawExchange
            and email = sampleEmail]
       d u
  show ?thesis by simp
qed

section \<open>Failures while processing\<close>

lemma EmailService_processEmail_failing_raw:
  "EmailService_processEmail failingClassifier rawExchange emptyWorld
   = (Inl ClassificationError,
      emptyWorld\<lparr> emails := [sampleEmail\<lparr> status := EmailStatus_PROCESSING \<rparr>] \<rparr>)"
  by (simp add: EmailService_processEmail_def EmailService_processEmail_catch_def
      EmailService_updateEmailStatus_def extractEmailFromExchange_def saveEmailToDatabase_def
      updateEmailStatus_def rawExchange_def emptyWorld_def failingClassifier_def
      sampleHeaders_def sampleEmail_def dbFails_def nextStatement_def
      idParam_def matchesId_def orEmpty_def Let_def)

lemma processEmail_fault_raw:
  "processEmail rawExchange (emptyWorld\<lparr> faults := [False, False, True] \<rparr>)
   = (Inl SqliteError, emptyWorld\<lparr> emails := [sampleEmail\<lparr> status := EmailStatus_PROCESSING \<rparr>] \<rparr>)"
  by (simp add: processEmail_def extractEmailFromExchange_def saveEmailToDatabase_def
      updateEmailStatus_def saveAnalysisResults_def rawExchange_def emptyWorld_def
      sampleHeaders_def sampleEmail_def dbFails_def nextStatement_def
      idParam_def matchesId_def orEmpty_def Let_def)

lemma EmailService_processEmail_fault_raw:
  "EmailService_processEmail mockClassifier rawExchange (emptyWorld\<lparr> faults := [False, False, True] \<rparr>)
   = (Inr (rawExchange\<lparr> body := EmailBody processedSample \<rparr>),
      emptyWorld\<lparr> emails := [sampleEmail\<lparr> status := EmailStatus_PROCESSING \<rparr>] \<rparr>)"
  by (simp add: EmailService_processEmail_def EmailService_saveAnalysisResults_def
      EmailService_updateEmailStatus_def extractEmailFromExchange_def saveEmailToDatabase_def
      updateEmailStatus_def saveAnalysisResults_def rawExchange_def emptyWorld_def
      mockClassifier_def processedSample_def
      sampleHeaders_def sampleEmail_def dbFails_def nextStatement_def
      idParam_def matchesId_def orEmpty_def Let_def)

text \<open>
  Claim C5 says that a failure of \<open>processEmail\<close> leaves the status ERROR in the store
  and reaches the caller. The status does not follow the failure. In the class version
  the \<open>catch\<close> finds the id on the body of the exchange, and the body of a raw exchange
  is still the text: the message stored a moment before stays at PROCESSING when the
  classifier throws. In the function version the \<open>catch\<close> writes no status at all: a
  fault at the third statement leaves PROCESSING too. And the class version keeps that
  same fault to itself: \<open>saveAnalysisResults\<close> logs it, the call returns the processed
  exchange, and the store still says PROCESSING.
\<close>

theorem failed_processing_leaves_status_PROCESSING:
  "fst (EmailService_processEmail failingClassifier rawExchange emptyWorld) = Inl ClassificationError
   \<and> storedStatus (snd (EmailService_processEmail failingClassifier rawExchange emptyWorld)) 1
       = Some EmailStatus_PROCESSING
   \<and> fst (processEmail rawExchange (emptyWorld\<lparr> faults := [False, False, True] \<rparr>)) = Inl SqliteError
   \<and> storedStatus (snd (processEmail rawExchange (emptyWorld\<lparr> faults := [False, False, True] \<rparr>))) 1
       = Some EmailStatus_PROCESSING
   \<and> fst (EmailService_processEmail mockClassifier rawExchange
              (emptyWorld\<lparr> faults := [False, False, True] \<rparr>))
       = Inr (rawExchange\<lparr> body := EmailBody processedSample \<rparr>)
   \<and> storedStatus (snd (EmailService_processEmail mockClassifier rawExchange
                           (emptyWorld\<lparr> faults := [False, False, True] \<rparr>))) 1
       = Some EmailStatus_PROCESSING
   \<and> EmailStatus_PROCESSING \<noteq> EmailStatus_ERROR"
  unfolding EmailService_processEmail_failing_raw processEmail_fault_raw
    EmailService_processEmail_fault_raw
  using EmailStatus_distinct
  by (simp add: storedStatus_def emptyWorld_def sampleEmail_def)

text \<open>
  The class version does write ERROR when the body already is a stored message: the same
  failure, on the processed exchange.
\<close>

lemma EmailService_processEmail_failing_with_id:
  "fst (EmailService_processEmail failingClassifier processedExchange processedWorld) = Inl ClassificationError
   \<and> storedStatus (snd (EmailService_processEmail failingClassifier processedExchange processedWorld)) 1
       = Some EmailStatus_ERROR"
  by (simp add: EmailService_processEmail_def EmailService_processEmail_catch_def
      EmailService_updateEmailStatus_def extractEmailFromExchange_def
      updateEmailStatus_def processedExchange_eq processedWorld_eq emptyWorld_def
      failingClassifier_def dbFails_def nextStatement_def storedStatus_def
      idParam_def matchesId_def id_processedSample Let_def)

section \<open>Failures while replying\<close>

lemma EmailService_generateReply_failure:
  assumes "body exchange = EmailBody email"
    and "advancedReply (EmailBody email) (toneAnalysis email) w = Inl e"
  shows "EmailService_generateReply advancedReply exchange w
         = (Inr (exchange\<lparr> body := TextBody
                   (replace_str
                      (replace_str EmailService_DEFAULT_REPLY (js ''{subject}'') (orEmpty (subject email)))
                      (js ''{from}'') (from_addr email)) \<rparr>), w)"
  using assms by (simp add: EmailService_generateReply_def Let_def)

text \<open>
  Claim C6 says that when the reply service fails for want of a template, no reply is
  sent and no default takes the place of the template. On the processed sample exchange,
  with a reply service that throws \<open>TemplateNotFound\<close>, the status does stay PROCESSED,
  but the route sends a mail, and its text is the built-in default reply.
\<close>

theorem missing_template_default_reply_is_sent:
  "missingTemplate (body processedExchange) (toneAnalysis processedSample) processedWorld
     = Inl TemplateNotFound
   \<and> storedStatus processedWorld 1 = Some EmailStatus_PROCESSED
   \<and> outbox processedWorld = []
   \<and> outbox (snd (emailAutoResponder missingTemplate (js ''office@example.com'')
                    processedExchange processedWorld))
       = [\<lparr> mail_to = js ''anna@example.com'', mail_subject = js ''Re: '' @ js ''Invoice 7'',
             mail_body = TextBody
               (replace_str
                  (replace_str EmailService_DEFAULT_REPLY (js ''{subject}'') (js ''Invoice 7''))
                  (js ''{from}'') (js ''anna@example.com'')) \<rparr>]"
proof -
  have b: "body processedExchange = EmailBody processedSample"
    by (simp add: processedExchange_eq)
  have m: "missingTemplate (EmailBody processedSample) (toneAnalysis processedSample) processedWorld
           = Inl TemplateNotFound"
    by (simp add: missingTemplate_def)
  have g: "EmailService_generateReply missingTemplate processedExchange processedWorld
           = (Inr (processedExchange\<lparr> body := TextBody
                   (replace_str
                      (replace_str EmailService_DEFAULT_REPLY (js ''{subject}'')
                         (orEmpty (subject processedSample)))
                      (js ''{from}'') (from_addr processedSample)) \<rparr>), processedWorld)"
    using b m EmailService_generateReply_failure
      [where advancedReply = missingTemplate and exchange = processedExchange
         and email = processedSample and w = processedWorld and e = TemplateNotFound]
    by simp
  have s: "storedStatus processedWorld 1 = Some EmailStatus_PROCESSED"
    by (simp add: processedWorld_eq storedStatus_def emptyWorld_def id_processedSample)
  have o: "outbox processedWorld = []" by (simp add: processedWorld_eq emptyWorld_def)
  have f: "orEmpty (subject processedSample) = js ''Invoice 7''"
    "from_addr processedSample = js ''anna@example.com''"
    "header_from (headers processedExchange) = js ''anna@example.com''"
    "orEmpty (header_subject (headers processedExchange)) = js ''Invoice 7''"
    by (simp_all add: processedSample_def sampleEmail_def orEmpty_def processedExchange_eq
        rawExchange_def sampleHeaders_def)
  show ?thesis
    using m s o by (simp add: b emailAutoResponder_def g f Let_def)
qed

text \<open>
  Claim C6, amended. When the reply service throws, for a missing template or anything
  else, \<open>generateReply\<close> leaves the store as it is, so the status stays PROCESSED and is
  not advanced to REPLIED; it puts the built-in default reply in the body, with
  \<open>{subject}\<close> and \<open>{from}\<close> replaced, and the route then sends that text to the sender.
\<close>

theorem failed_reply_sends_default_keeps_status:
  assumes "body exchange = EmailBody email"
    and "advancedReply (EmailBody email) (toneAnalysis email) w = Inl e"
  shows "EmailService_generateReply advancedReply exchange w
         = (Inr (exchange\<lparr> body := TextBody
                   (replace_str
                      (replace_str EmailService_DEFAULT_REPLY (js ''{subject}'') (orEmpty (subject email)))
                      (js ''{from}'') (from_addr email)) \<rparr>), w)
         \<and> emails (snd (emailAutoResponder advancedReply username exchange w)) = emails w
         \<and> outbox (snd (emailAutoResponder advancedReply username exchange w))
             = outbox w @ [\<lparr> mail_to = header_from (headers exchange),
                               mail_subject = js ''Re: '' @ orEmpty (header_subject (headers exchange)),
                               mail_body = TextBody
                                 (replace_str
                                    (replace_str EmailService_DEFAULT_REPLY (js ''{subject}'')
                                       (orEmpty (subject email)))
                                    (js ''{from}'') (from_addr email)) \<rparr>]"
  using assms EmailService_generateReply_failure
      [where advancedReply = advancedReply and exchange = exchange and email = email
         and w = w and e = e]
  by (simp add: emailAutoResponder_def Let_def)

theorem failed_reply_sends_default_keeps_status_witness:
  "body processedExchange = EmailBody processedSample
   \<and> missingTemplate (EmailBody processedSample) (toneAnalysis processedSample) processedWorld
       = Inl TemplateNotFound
   \<and> EmailService_generateReply missingTemplate processedExchange processedWorld
         = (Inr (processedExchange\<lparr> body := TextBody
                   (replace_str
                      (replace_str EmailService_DEFAULT_REPLY (js ''{subject}'')
                         (orEmpty (subject processedSample)))
                      (js ''{from}'') (from_addr processedSample)) \<rparr>), processedWorld)
   \<and> emails (snd (emailAutoResponder missingTemplate (js ''office@example.com'')
                    processedExchange processedWorld)) = emails processedWorld
   \<and> outbox (snd (emailAutoResponder missingTemplate (js ''office@example.com'')
                    processedExchange processedWorld))
       = outbox processedWorld
         @ [\<lparr> mail_to = header_from (headers processedExchange),
               mail_subject = js ''Re: '' @ orEmpty (header_subject (headers processedExchange)),
               mail_body = TextBody
                 (replace_str
                    (replace_str EmailService_DEFAULT_REPLY (js ''{subject}'')
                       (orEmpty (subject processedSample)))
                    (js ''{from}'') (from_addr processedSample)) \<rparr>]"
proof -
  have b: "body processedExchange = EmailBody processedSample"
    by (simp add: processedExchange_eq)
  have m: "missingTemplate (EmailBody processedSample) (toneAnalysis processedSample) processedWorld
           = Inl TemplateNotFound"
    by (simp add: missingTemplate_def)
  from b m failed_reply_sends_default_keeps_status
         [where advancedReply = missingTemplate and exchange = processedExchange
            and email = processedSample and w = processedWorld and e = TemplateNotFound
            and username = "js ''office@example.com''"]
  show ?thesis by blast
qed

text \<open>
  The endpoint \<open>GET /api/templates/:key\<close> is where a key without a template is an
  error of its own: it answers 404, unless the key names a member inherited from
  \<open>Object.prototype\<close>, which it answers with 200.
\<close>

lemma getTemplate_missing:
  assumes "map_of ts templateKey = None" and "templateKey \<notin> set objectPrototypeKeys"
  shows "getTemplate (Some ts) templateKey = Status404 templateKey"
  using assms by (simp add: getTemplate_def)

lemma getTemplate_inherited:
  assumes "map_of ts templateKey = None" and "templateKey \<in> set objectPrototypeKeys"
  shows "getTemplate (Some ts) templateKey = Status200 templateKey InheritedMember"
  using assms by (simp add: getTemplate_def)

section \<open>The lifecycle\<close>






text \<open>
  The same shows without a second exchange: \<open>processEmail\<close> leaves the processed
  message in the body, and a second call on that exchange writes PROCESSING over
  PROCESSED; when the statement that would write PROCESSED again fails, it stays there.
\<close>

lemma processEmail_twice_fault:
  "storedStatus (runOps [ProcessEmail rawExchange] emptyWorld) 1 = Some EmailStatus_PROCESSED
   \<and> storedStatus (runOps [ProcessEmail processedExchange]
                      (processedWorld\<lparr> faults := [False, True] \<rparr>)) 1
       = Some EmailStatus_PROCESSING"
proof -
  have "runOps [ProcessEmail rawExchange] emptyWorld = emptyWorld\<lparr> emails := [processedSample] \<rparr>"
    by (simp add: runOps_def processEmail_rawExchange)
  then have "storedStatus (runOps [ProcessEmail rawExchange] emptyWorld) 1 = Some EmailStatus_PROCESSED"
    by (simp add: storedStatus_def emptyWorld_def id_processedSample)
  moreover have "storedStatus (runOps [ProcessEmail processedExchange]
                      (processedWorld\<lparr> faults := [False, True] \<rparr>)) 1
       = Some EmailStatus_PROCESSING"
    by (simp add: runOps_def processEmail_def extractEmailFromExchange_def
        processedExchange_eq processedWorld_eq updateEmailStatus_def saveAnalysisResults_def
        emptyWorld_def dbFails_def nextStatement_def idParam_def matchesId_def
        id_processedSample storedStatus_def Let_def)
  ultimately show ?thesis by (rule conjI)
qed




lemma wellFormedStore_iff:
  "wellFormedStore w
   \<longleftrightarrow> (\<forall>row \<in> set (emails w). \<forall>n. id_num row = Some n \<longrightarrow> n \<le> length (emails w))"
  by (auto simp: wellFormedStore_def list_all_iff split: option.splits)

lemma wellFormedStore_emails:
  "emails w' = emails w \<Longrightarrow> wellFormedStore w' = wellFormedStore w"
  by (simp add: wellFormedStore_iff)

lemma wellFormedStore_map:
  assumes "wellFormedStore w" and "\<And>row. id_num (f row) = id_num row"
    and "emails w' = map f (emails w)"
  shows "wellFormedStore w'"
  using assms by (auto simp: wellFormedStore_iff)

lemma saveEmailToDatabase_wellFormed:
  assumes "wellFormedStore w"
  shows "wellFormedStore (snd (saveEmailToDatabase email w))"
proof (cases "dbFails w")
  case True
  with assms show ?thesis
    by (simp add: saveEmailToDatabase_def wellFormedStore_iff nextStatement_def)
next
  case False
  with assms show ?thesis
    by (auto simp: saveEmailToDatabase_def wellFormedStore_iff nextStatement_def Let_def
        le_Suc_eq)
qed

lemma updateEmailStatus_wellFormed:
  assumes "wellFormedStore w"
  shows "wellFormedStore (snd (updateEmailStatus p newStatus w))"
proof (cases "dbFails w")
  case True
  with assms show ?thesis
    by (simp add: updateEmailStatus_def wellFormedStore_iff nextStatement_def)
next
  case False
  let ?f = "\<lambda>row. if matchesId p row then row\<lparr> status := newStatus \<rparr> else row"
  have "wellFormedStore (snd (updateEmailStatus p newStatus w))"
  proof (rule wellFormedStore_map [OF assms, of ?f])
    show "\<And>row. id_num (?f row) = id_num row" by simp
    from False show "emails (snd (updateEmailStatus p newStatus w)) = map ?f (emails w)"
      by (simp add: updateEmailStatus_def nextStatement_def)
  qed
  then show ?thesis .
qed

lemma saveAnalysisResults_wellFormed:
  assumes "wellFormedStore w"
  shows "wellFormedStore (snd (saveAnalysisResults email w))"
proof (cases "dbFails w \<or> processedDate email = None")
  case True
  with assms show ?thesis
    by (auto simp: saveAnalysisResults_def wellFormedStore_iff nextStatement_def)
next
  case False
  then obtain d where d: "processedDate email = Some d" by auto
  let ?f = "\<lambda>row. if matchesId (idParam email) row
                   then row\<lparr> toneAnalysis := toneAnalysis email, processedDate := Some d,
                            status := status email \<rparr>
                   else row"
  show ?thesis
  proof (rule wellFormedStore_map [OF assms, of ?f])
    show "\<And>row. id_num (?f row) = id_num row" by simp
    from False d show "emails (snd (saveAnalysisResults email w)) = map ?f (emails w)"
      by (simp add: saveAnalysisResults_def nextStatement_def)
  qed
qed

lemma extractEmailFromExchange_wellFormed:
  assumes "wellFormedStore w"
  shows "wellFormedStore (snd (extractEmailFromExchange exchange w))"
proof (cases "body exchange")
  case (EmailBody email)
  with assms show ?thesis by (simp add: extractEmailFromExchange_def)
next
  case (TextBody t)
  with saveEmailToDatabase_wellFormed [OF assms] show ?thesis
    by (simp add: extractEmailFromExchange_def Let_def split: prod.split sum.split)
      (metis snd_conv)
next
  case NoBody
  with saveEmailToDatabase_wellFormed [OF assms] show ?thesis
    by (simp add: extractEmailFromExchange_def Let_def split: prod.split sum.split)
      (metis snd_conv)
qed

lemma processEmail_wellFormed:
  assumes "wellFormedStore w"
  shows "wellFormedStore (snd (processEmail exchange w))"
proof -
  obtain r1 w1 where e1: "extractEmailFromExchange exchange w = (r1, w1)"
    by (cases "extractEmailFromExchange exchange w")
  with extractEmailFromExchange_wellFormed [OF assms, of exchange]
  have s1: "wellFormedStore w1" by simp
  show ?thesis
  proof (cases r1)
    case (Inl e)
    with e1 s1 show ?thesis by (simp add: processEmail_def)
  next
    case (Inr email)
    obtain r2 w2 where e2: "updateEmailStatus (idParam email) EmailStatus_PROCESSING w1 = (r2, w2)"
      by (cases "updateEmailStatus (idParam email) EmailStatus_PROCESSING w1")
    with updateEmailStatus_wellFormed [OF s1, of "idParam email" EmailStatus_PROCESSING]
    have s2: "wellFormedStore w2" by simp
    show ?thesis
    proof (cases r2)
      case (Inl e)
      with e1 e2 Inr s2 show ?thesis by (simp add: processEmail_def)
    next
      case (Inr u)
      let ?p = "email\<lparr> toneAnalysis := Some (analyzeTone (orEmpty (content email))),
                         processedDate := Some (clock w2), status := EmailStatus_PROCESSED \<rparr>"
      obtain r3 w3 where e3: "saveAnalysisResults ?p w2 = (r3, w3)"
        by (cases "saveAnalysisResults ?p w2")
      with saveAnalysisResults_wellFormed [OF s2, of ?p] have "wellFormedStore w3" by simp
      with e1 e2 e3 \<open>r1 = Inr email\<close> Inr show ?thesis
        by (cases r3) (simp_all add: processEmail_def Let_def)
    qed
  qed
qed

lemma generateReply_wellFormed:
  assumes "wellFormedStore w"
  shows "wellFormedStore (snd (generateReply exchange w))"
proof (cases "body exchange")
  case (EmailBody email)
  with updateEmailStatus_wellFormed [OF assms, of "idParam email" EmailStatus_REPLIED] show ?thesis
    by (auto simp: generateReply_def Let_def split: prod.split sum.split)
next
  case (TextBody t)
  with updateEmailStatus_wellFormed [OF assms, of Null EmailStatus_REPLIED] show ?thesis
    by (auto simp: generateReply_def Let_def split: prod.split sum.split)
next
  case NoBody
  with assms show ?thesis by (simp add: generateReply_def)
qed

lemma coreStep_wellFormed: "wellFormedStore w \<Longrightarrow> wellFormedStore (coreStep w op)"
  by (cases op) (simp_all add: processEmail_wellFormed generateReply_wellFormed)

lemma runOps_wellFormed: "wellFormedStore w \<Longrightarrow> wellFormedStore (runOps ops w)"
  unfolding runOps_def by (induction ops arbitrary: w) (simp_all add: coreStep_wellFormed)










lemma reachable_wellFormed: "wellFormedStore (runOps ops emptyWorld)"
  by (rule runOps_wellFormed) (simp add: wellFormedStore_def emptyWorld_def)



text \<open>
  The amendment leaves out no more than the sequence that refutes the claim: its third
  call is \<open>processEmail\<close> on the message that the store holds as REPLIED.
\<close>

lemma reprocessing_in_counterexample:
  "\<not> noReprocessing emptyWorld
       [ProcessEmail rawExchange, GenerateReply processedExchange, ProcessEmail processedExchange]"
proof -
  have w1: "coreStep emptyWorld (ProcessEmail rawExchange) = processedWorld"
    by (simp add: processedWorld_def)
  have w2: "coreStep processedWorld (GenerateReply processedExchange)
            = emptyWorld\<lparr> emails := [processedSample\<lparr> status := EmailStatus_REPLIED \<rparr>] \<rparr>"
    by (simp add: generateReply_processed_world)
  have "reprocesses (emptyWorld\<lparr> emails := [processedSample\<lparr> status := EmailStatus_REPLIED \<rparr>] \<rparr>)
          (ProcessEmail processedExchange)"
    by (simp add: processedExchange_eq id_processedSample storedStatus_def emptyWorld_def)
  then show ?thesis unfolding noReprocessing.simps w1 w2 by simp
qed

end
